theory Spec2Isabelle
  imports Complex_Main "HOL-Library.Log_Nat"
begin

text \<open>
  A shallow embedding of the Trinnov integration driver (the Python modules
  \<open>registry.py\<close>, \<open>device.py\<close>, \<open>media_player.py\<close>, \<open>sensor.py\<close>,
  \<open>remote.py\<close> and \<open>const.py\<close>) and the properties of it that are proved. Objects
  are records, a method takes the object and returns it updated together with what it
  did, an exception is a value, and the libraries the driver calls (the device session
  and its executor, \<open>ucapi\<close>) appear as parameters or as the constants they define.
\<close>

section \<open>Python values\<close>

text \<open>
  The integration is dynamically typed: telemetry values, command parameters and entity
  attributes are arbitrary Python objects. \<open>pyval\<close> holds the ones that occur. A
  \<open>float\<close> is a \<open>VFloat\<close> with the rational a finite binary64 number denotes (zero
  has no sign), \<open>VNaN\<close> for a NaN, or \<open>VInf True\<close> and \<open>VInf False\<close> for plus and
  minus infinity. A member of one of the \<open>str\<close>-based enums of
  \<open>ucapi\<close> (\<open>States.ON\<close>, ...) is the \<open>VStr\<close> of its value: such a member is a
  \<open>str\<close> and compares equal to it. A \<open>VDict\<close> lists its items in insertion order.
  Values have no identity: two values compared with each other are two objects, as
  values delivered or computed at different times are.
\<close>

datatype pyval =
    VNone
  | VBool bool
  | VInt int
  | VFloat rat
  | VNaN
  | VInf bool
  | VStr string
  | VList "pyval list"
  | VDict "(pyval \<times> pyval) list"

datatype py_error =
  TypeError | ValueError | AttributeError | UnboundLocalError | OverflowError
  | ZeroDivisionError | OtherError

text \<open>The number a \<open>bool\<close>, \<open>int\<close> or finite \<open>float\<close> compares as.\<close>

fun num_of :: "pyval \<Rightarrow> rat option" where
  "num_of (VBool b) = Some (if b then 1 else 0)"
| "num_of (VInt i) = Some (of_int i)"
| "num_of (VFloat r) = Some r"
| "num_of _ = None"

text \<open>
  Python's \<open>==\<close>: numbers compare by value across \<open>bool\<close>, \<open>int\<close> and \<open>float\<close>,
  an infinity equals only itself and a NaN equals nothing, not even a NaN; strings and
  lists compare structurally, dictionaries as sets of items, and values of different
  kinds are unequal.
\<close>

fun py_eq :: "pyval \<Rightarrow> pyval \<Rightarrow> bool" where
  "py_eq VNone VNone = True"
| "py_eq (VStr a) (VStr b) = (a = b)"
| "py_eq (VList xs) (VList ys) = list_all2 py_eq xs ys"
| "py_eq (VDict xs) (VDict ys) =
     (length xs = length ys \<and>
      list_all (\<lambda>kv. list_ex (\<lambda>kv'. py_eq (fst kv) (fst kv') \<and> py_eq (snd kv) (snd kv')) ys) xs)"
| "py_eq (VInf a) (VInf b) = (a = b)"
| "py_eq a b = (case num_of a of None \<Rightarrow> False
                | Some x \<Rightarrow> (case num_of b of None \<Rightarrow> False | Some y \<Rightarrow> x = y))"

definition py_ne :: "pyval \<Rightarrow> pyval \<Rightarrow> bool" where
  "py_ne a b = (\<not> py_eq a b)"

text \<open>Truth value of an object, as \<open>if x\<close> and \<open>not x\<close> test it.\<close>

fun truthy :: "pyval \<Rightarrow> bool" where
  "truthy VNone = False"
| "truthy (VBool b) = b"
| "truthy (VInt i) = (i \<noteq> 0)"
| "truthy (VFloat r) = (r \<noteq> 0)"
| "truthy VNaN = True"
| "truthy (VInf b) = True"
| "truthy (VStr s) = (s \<noteq> [])"
| "truthy (VList xs) = (xs \<noteq> [])"
| "truthy (VDict kvs) = (kvs \<noteq> [])"

text \<open>A value without a NaN in it; such a value equals itself.\<close>

fun nan_free :: "pyval \<Rightarrow> bool" where
  "nan_free VNaN = False"
| "nan_free (VList xs) = list_all nan_free xs"
| "nan_free (VDict kvs) = list_all (\<lambda>kv. nan_free (fst kv) \<and> nan_free (snd kv)) kvs"
| "nan_free v = True"

section \<open>registry.py\<close>

text \<open>
  \<open>_configured_trinnovs\<close> is a module-level \<open>dict\<close> from device id to device object.
  A Python \<open>dict\<close> keeps insertion order (\<open>connect_all\<close> iterates in it), so the
  registry is the list of its items; every function takes the registry and returns it
  updated.
\<close>

type_synonym 'd registry = "(string \<times> 'd) list"

definition get_device :: "'d registry \<Rightarrow> string \<Rightarrow> 'd option" where
  "get_device reg device_id = map_of reg device_id"

definition register_device :: "string \<Rightarrow> 'd \<Rightarrow> 'd registry \<Rightarrow> 'd registry" where
  "register_device device_id device reg =
     (if device_id \<notin> set (map fst reg) then reg @ [(device_id, device)] else reg)"

definition unregister_device :: "string \<Rightarrow> 'd registry \<Rightarrow> 'd registry" where
  "unregister_device device_id reg = filter (\<lambda>kv. fst kv \<noteq> device_id) reg"

definition all_devices :: "'d registry \<Rightarrow> 'd registry" where
  "all_devices reg = reg"

definition clear_devices :: "'d registry \<Rightarrow> 'd registry" where
  "clear_devices reg = []"

definition iter_devices :: "'d registry \<Rightarrow> 'd list" where
  "iter_devices reg = map snd reg"

section \<open>Binary64 arithmetic\<close>

text \<open>
  A Python \<open>float\<close> is an IEEE 754 binary64 number, and \<open>+\<close>, \<open>-\<close>, \<open>*\<close>, \<open>/\<close>
  return the exact result rounded to the nearest such number, ties to the even
  significand; \<open>int / int\<close> rounds the exact quotient the same way. \<open>fl\<close> is that
  rounding to 53 significant bits, with no bound on the exponent. The operations on
  rationals below (\<open>fadd\<close>, ...) are for operands whose results are far from overflow,
  as those of \<open>percent_to_db\<close> are; the operations on \<open>float64\<close> further down add
  overflow, the infinities and NaN. Subnormal numbers are not modelled: no computation
  of \<open>volume_percent\<close> on a binary64 volume has a result that small.
\<close>

definition pow2 :: "int \<Rightarrow> rat" where
  "pow2 e = (if 0 \<le> e then 2 ^ nat e else 1 / 2 ^ nat (- e))"

definition bit_gap :: "rat \<Rightarrow> int" where
  "bit_gap y = bitlen (fst (quotient_of y)) - bitlen (snd (quotient_of y))"

text \<open>For \<open>0 < y\<close>, \<open>expo y\<close> is the exponent \<open>e\<close> with \<open>2\<^sup>e \<le> y < 2\<^sup>e\<^sup>+\<^sup>1\<close>.\<close>

definition expo :: "rat \<Rightarrow> int" where
  "expo y = (if pow2 (bit_gap y) \<le> y then bit_gap y else bit_gap y - 1)"

definition round_half_even :: "rat \<Rightarrow> int" where
  "round_half_even y =
     (if y - of_int \<lfloor>y\<rfloor> < 1 / 2 then \<lfloor>y\<rfloor>
      else if 1 / 2 < y - of_int \<lfloor>y\<rfloor> then \<lfloor>y\<rfloor> + 1
      else if even \<lfloor>y\<rfloor> then \<lfloor>y\<rfloor> else \<lfloor>y\<rfloor> + 1)"

definition ulp :: "rat \<Rightarrow> rat" where
  "ulp x = pow2 (expo \<bar>x\<bar> - 52)"

definition fl :: "rat \<Rightarrow> rat" where
  "fl x = (if x = 0 then 0 else sgn x * of_int (round_half_even (\<bar>x\<bar> / ulp x)) * ulp x)"

definition fadd :: "rat \<Rightarrow> rat \<Rightarrow> rat" where
  "fadd a b = fl (a + b)"

definition fsub :: "rat \<Rightarrow> rat \<Rightarrow> rat" where
  "fsub a b = fl (a - b)"

definition fmul :: "rat \<Rightarrow> rat \<Rightarrow> rat" where
  "fmul a b = fl (a * b)"

definition fdiv :: "rat \<Rightarrow> rat \<Rightarrow> rat" where
  "fdiv a b = fl (a / b)"

text \<open>\<open>a / b\<close> on two \<open>int\<close>s (true division).\<close>

definition int_truediv :: "int \<Rightarrow> int \<Rightarrow> rat" where
  "int_truediv a b = fl (of_int a / of_int b)"

text \<open>
  A \<open>float\<close> as an operand: finite, infinite (\<open>Inf64 True\<close> is plus infinity) or NaN.
  A rounded result of magnitude \<open>2\<^sup>1\<^sup>0\<^sup>2\<^sup>4\<close> or more overflows to the infinity of its
  sign.
\<close>

datatype float64 = Finite64 rat | Inf64 bool | NaN64

definition overflow :: "rat \<Rightarrow> float64" where
  "overflow r = (if of_int (2 ^ 1024) \<le> \<bar>r\<bar> then Inf64 (0 < r) else Finite64 r)"

fun f64_sub :: "float64 \<Rightarrow> float64 \<Rightarrow> float64" where
  "f64_sub (Finite64 a) (Finite64 b) = overflow (fl (a - b))"
| "f64_sub (Inf64 s) (Inf64 t) = (if s = t then NaN64 else Inf64 s)"
| "f64_sub (Inf64 s) (Finite64 b) = Inf64 s"
| "f64_sub (Finite64 a) (Inf64 t) = Inf64 (\<not> t)"
| "f64_sub a b = NaN64"

fun f64_mul :: "float64 \<Rightarrow> float64 \<Rightarrow> float64" where
  "f64_mul (Finite64 a) (Finite64 b) = overflow (fl (a * b))"
| "f64_mul (Inf64 s) (Inf64 t) = Inf64 (s = t)"
| "f64_mul (Inf64 s) (Finite64 b) = (if b = 0 then NaN64 else Inf64 (s = (0 < b)))"
| "f64_mul (Finite64 a) (Inf64 t) = (if a = 0 then NaN64 else Inf64 (t = (0 < a)))"
| "f64_mul a b = NaN64"

text \<open>\<open>a / b\<close> on \<open>float\<close>s raises \<open>ZeroDivisionError\<close> for a zero divisor, whatever \<open>a\<close> is.\<close>

fun f64_div :: "float64 \<Rightarrow> float64 \<Rightarrow> py_error + float64" where
  "f64_div (Finite64 a) (Finite64 b) =
     (if b = 0 then Inl ZeroDivisionError else Inr (overflow (fl (a / b))))"
| "f64_div (Inf64 s) (Finite64 b) =
     (if b = 0 then Inl ZeroDivisionError else Inr (Inf64 (s = (0 < b))))"
| "f64_div NaN64 (Finite64 b) = (if b = 0 then Inl ZeroDivisionError else Inr NaN64)"
| "f64_div (Finite64 a) (Inf64 t) = Inr (Finite64 0)"
| "f64_div a b = Inr NaN64"

text \<open>\<open>a < b\<close>: false as soon as a NaN is compared.\<close>

fun f64_less :: "float64 \<Rightarrow> float64 \<Rightarrow> bool" where
  "f64_less (Finite64 a) (Finite64 b) = (a < b)"
| "f64_less (Inf64 s) (Inf64 t) = (t \<and> \<not> s)"
| "f64_less (Inf64 s) (Finite64 b) = (\<not> s)"
| "f64_less (Finite64 a) (Inf64 t) = t"
| "f64_less a b = False"

text \<open>
  The operand of mixed arithmetic as a \<open>float\<close>: a \<open>bool\<close> or an \<open>int\<close> is converted
  (\<open>OverflowError\<close> for an \<open>int\<close> too large for a \<open>float\<close>), anything that is no number
  is a \<open>TypeError\<close> of the operator.
\<close>

fun to_float :: "pyval \<Rightarrow> py_error + float64" where
  "to_float (VBool b) = Inr (Finite64 (if b then 1 else 0))"
| "to_float (VInt i) =
     (if of_int (2 ^ 1024) \<le> \<bar>fl (of_int i)\<bar> then Inl OverflowError
      else Inr (Finite64 (fl (of_int i))))"
| "to_float (VFloat r) = Inr (Finite64 r)"
| "to_float VNaN = Inr NaN64"
| "to_float (VInf b) = Inr (Inf64 b)"
| "to_float v = Inl TypeError"

text \<open>
  The builtins \<open>min(a, b)\<close> and \<open>max(a, b)\<close> keep the first argument unless the second
  is strictly smaller (larger); \<open>int(x)\<close> of a \<open>float\<close> truncates toward zero and
  raises \<open>OverflowError\<close> for an infinity and \<open>ValueError\<close> for a NaN.
\<close>

definition py_min :: "float64 \<Rightarrow> float64 \<Rightarrow> float64" where
  "py_min a b = (if f64_less b a then b else a)"

definition py_max :: "float64 \<Rightarrow> float64 \<Rightarrow> float64" where
  "py_max a b = (if f64_less a b then b else a)"

definition int_of_float :: "rat \<Rightarrow> int" where
  "int_of_float x = (if 0 \<le> x then \<lfloor>x\<rfloor> else \<lceil>x\<rceil>)"

fun int_of_float64 :: "float64 \<Rightarrow> py_error + int" where
  "int_of_float64 (Finite64 r) = Inr (int_of_float r)"
| "int_of_float64 (Inf64 s) = Inl OverflowError"
| "int_of_float64 NaN64 = Inl ValueError"

text \<open>Signs of operands, for the statements about clamping.\<close>

fun nonpos64 :: "float64 \<Rightarrow> bool" where
  "nonpos64 (Finite64 r) = (r \<le> 0)"
| "nonpos64 (Inf64 s) = (\<not> s)"
| "nonpos64 NaN64 = False"

fun at_least64 :: "rat \<Rightarrow> float64 \<Rightarrow> bool" where
  "at_least64 k (Finite64 r) = (k \<le> r)"
| "at_least64 k (Inf64 s) = s"
| "at_least64 k NaN64 = False"

section \<open>Names from const.py and from the ucapi library\<close>

datatype EntityPrefix =
  EP_MEDIA_PLAYER | EP_REMOTE | EP_SAMPLE_RATE | EP_AUDIO_SYNC | EP_VOLUME | EP_MUTED

fun prefix_value :: "EntityPrefix \<Rightarrow> string" where
  "prefix_value EP_MEDIA_PLAYER = ''media_player''"
| "prefix_value EP_REMOTE = ''remote''"
| "prefix_value EP_SAMPLE_RATE = ''sample_rate''"
| "prefix_value EP_AUDIO_SYNC = ''audio_sync''"
| "prefix_value EP_VOLUME = ''volume''"
| "prefix_value EP_MUTED = ''muted''"

text \<open>
  \<open>ucapi.media_player.States\<close>, \<open>ucapi.remote.States\<close> and \<open>ucapi.sensor.States\<close>
  are \<open>str\<close> enums whose values are the member names; the attribute keys are the
  values of the \<open>Attributes\<close> enums.
\<close>

datatype MediaStates =
  MS_UNAVAILABLE | MS_UNKNOWN | MS_ON | MS_OFF | MS_PLAYING | MS_PAUSED | MS_STANDBY | MS_BUFFERING

fun media_value :: "MediaStates \<Rightarrow> string" where
  "media_value MS_UNAVAILABLE = ''UNAVAILABLE''"
| "media_value MS_UNKNOWN = ''UNKNOWN''"
| "media_value MS_ON = ''ON''"
| "media_value MS_OFF = ''OFF''"
| "media_value MS_PLAYING = ''PLAYING''"
| "media_value MS_PAUSED = ''PAUSED''"
| "media_value MS_STANDBY = ''STANDBY''"
| "media_value MS_BUFFERING = ''BUFFERING''"

datatype RemoteStates = RS_UNAVAILABLE | RS_UNKNOWN | RS_ON | RS_OFF

fun remote_value :: "RemoteStates \<Rightarrow> string" where
  "remote_value RS_UNAVAILABLE = ''UNAVAILABLE''"
| "remote_value RS_UNKNOWN = ''UNKNOWN''"
| "remote_value RS_ON = ''ON''"
| "remote_value RS_OFF = ''OFF''"

datatype SensorStates = SS_UNAVAILABLE | SS_UNKNOWN | SS_ON

fun sensor_value :: "SensorStates \<Rightarrow> string" where
  "sensor_value SS_UNAVAILABLE = ''UNAVAILABLE''"
| "sensor_value SS_UNKNOWN = ''UNKNOWN''"
| "sensor_value SS_ON = ''ON''"

definition ATTR_STATE :: string where "ATTR_STATE = ''state''"
definition ATTR_VALUE :: string where "ATTR_VALUE = ''value''"
definition ATTR_UNIT :: string where "ATTR_UNIT = ''unit''"
definition ATTR_MUTED :: string where "ATTR_MUTED = ''muted''"
definition ATTR_VOLUME :: string where "ATTR_VOLUME = ''volume''"
definition ATTR_SOURCE :: string where "ATTR_SOURCE = ''source''"
definition ATTR_SOURCE_LIST :: string where "ATTR_SOURCE_LIST = ''source_list''"
definition ATTR_SOUND_MODE :: string where "ATTR_SOUND_MODE = ''sound_mode''"
definition ATTR_SOUND_MODE_LIST :: string where "ATTR_SOUND_MODE_LIST = ''sound_mode_list''"

datatype StatusCodes = OK | BAD_REQUEST | NOT_IMPLEMENTED | SERVICE_UNAVAILABLE

section \<open>device.py: the device object\<close>

text \<open>
  What a method does besides changing the object is returned as a list of effects, in
  program order: an event emitted on \<open>self.events\<close> (\<open>Emit\<close> for a connection
  notification with the device id, \<open>Emit_update\<close> for \<open>Events.UPDATE\<close> with the entity
  id and the one-entry attribute dictionary), a sleep, the task
  \<open>asyncio.create_task(self.connect())\<close>, the closing of the session, the cancellation
  of the wait task, a call of an executor method, and the wake-on-LAN call.
\<close>

datatype effect =
    Emit string string
  | Emit_update string string pyval
  | Sleep nat
  | Create_task_connect
  | Device_close
  | Cancel_wait_task
  | Executor_call string "pyval list"
  | PowerControl_power_on string

datatype task = Running | Done

record device =
  device_id :: string
  ip :: string
  mac :: string
  connected_flag :: bool
  connecting_flag :: bool
  was_intentional_disconnect :: bool
  wait_task :: "task option"
  attr_state :: MediaStates
  attr_volume :: pyval
  attr_audio_sync :: pyval
  attr_srate :: string
  attr_input_labels :: "(pyval \<times> pyval) list"
  attr_sound_modes :: "(pyval \<times> pyval) list"
  attr_muted :: pyval

text \<open>
  \<open>__init__\<close>. The two label tables start as the ones of the session's audio settings,
  which are parameters here.
\<close>

definition TrinnovDevice :: "string \<Rightarrow> string \<Rightarrow> string option \<Rightarrow>
    (pyval \<times> pyval) list \<Rightarrow> (pyval \<times> pyval) list \<Rightarrow> device" where
  "TrinnovDevice ip_arg mac_arg id_arg labels sound_mode_list =
     \<lparr> device_id = (case id_arg of None \<Rightarrow> ''unknown''
                     | Some i \<Rightarrow> if i = [] then ''unknown'' else i),
       ip = ip_arg,
       mac = mac_arg,
       connected_flag = False,
       connecting_flag = False,
       was_intentional_disconnect = False,
       wait_task = None,
       attr_state = MS_OFF,
       attr_volume = VInt 0,
       attr_audio_sync = VBool False,
       attr_srate = ''unknown'',
       attr_input_labels = labels,
       attr_sound_modes = sound_mode_list,
       attr_muted = VBool False \<rparr>"

definition min_db :: rat where "min_db = - 100"

definition max_db :: rat where "max_db = 0"

text \<open>
  The property \<open>volume_percent\<close>: \<open>scaled\<close> is the line that computes \<open>percent\<close>
  from the operand \<open>raw_db\<close>, \<open>percent_of_db\<close> the \<open>return\<close> line after it;
  \<open>raw_db - min_db\<close> fails on a value that is no number.
\<close>

definition scaled :: "float64 \<Rightarrow> py_error + float64" where
  "scaled raw_db =
     (case f64_div (f64_sub raw_db (Finite64 min_db)) (f64_sub (Finite64 max_db) (Finite64 min_db)) of
        Inl e \<Rightarrow> Inl e
      | Inr q \<Rightarrow> Inr (f64_mul q (Finite64 100)))"

definition percent_of_db :: "float64 \<Rightarrow> py_error + int" where
  "percent_of_db raw_db =
     (case scaled raw_db of
        Inl e \<Rightarrow> Inl e
      | Inr percent \<Rightarrow> int_of_float64 (py_max (Finite64 0) (py_min (Finite64 100) percent)))"

definition volume_percent :: "device \<Rightarrow> py_error + int" where
  "volume_percent s =
     (case to_float (attr_volume s) of
        Inl e \<Rightarrow> Inl e
      | Inr raw_db \<Rightarrow> percent_of_db raw_db)"

definition percent_to_db :: "int \<Rightarrow> rat" where
  "percent_to_db percent =
     fadd (fmul (int_truediv (max 0 (min 100 percent)) 100) (fsub max_db min_db)) min_db"

definition emit_update :: "device \<Rightarrow> EntityPrefix \<Rightarrow> string \<Rightarrow> pyval \<Rightarrow> effect" where
  "emit_update s prefix attr v = Emit_update (prefix_value prefix @ ''.'' @ device_id s) attr v"

text \<open>
  \<open>disconnect\<close>. A task object is true, so \<open>self._wait_task\<close> tests for \<open>None\<close>.
  The method does not touch \<open>_was_intentional_disconnect\<close>.
\<close>

definition disconnect :: "device \<Rightarrow> device \<times> effect list" where
  "disconnect s =
     (if connected_flag s \<or> wait_task s \<noteq> None then
        (if wait_task s = Some Running
         then (s\<lparr>wait_task := None\<rparr>, [Cancel_wait_task, Device_close])
         else (s, [Device_close]))
      else (s, []))"

text \<open>
  \<open>_handle_connection_state\<close>. \<open>ConnectionStatus\<close> belongs to the session library;
  \<open>Status_other\<close> is any value that is neither of the two the handler tests for.
\<close>

datatype ConnectionStatus = Status_CONNECTED | Status_DISCONNECTED | Status_other

definition disconnected_updates :: "device \<Rightarrow> effect list" where
  "disconnected_updates s =
     [emit_update s EP_MEDIA_PLAYER ATTR_STATE (VStr (media_value MS_OFF)),
      emit_update s EP_REMOTE ATTR_STATE (VStr (remote_value RS_OFF)),
      emit_update s EP_SAMPLE_RATE ATTR_STATE (VStr (sensor_value SS_UNAVAILABLE)),
      emit_update s EP_AUDIO_SYNC ATTR_STATE (VStr (sensor_value SS_UNAVAILABLE)),
      emit_update s EP_VOLUME ATTR_STATE (VStr (sensor_value SS_UNAVAILABLE)),
      emit_update s EP_MUTED ATTR_STATE (VStr (sensor_value SS_UNAVAILABLE))]"

definition connected_updates :: "device \<Rightarrow> effect list" where
  "connected_updates s =
     [emit_update s EP_MEDIA_PLAYER ATTR_STATE (VStr (media_value MS_ON)),
      emit_update s EP_REMOTE ATTR_STATE (VStr (remote_value RS_ON)),
      emit_update s EP_SAMPLE_RATE ATTR_STATE (VStr (sensor_value SS_ON)),
      emit_update s EP_AUDIO_SYNC ATTR_STATE (VStr (sensor_value SS_ON)),
      emit_update s EP_VOLUME ATTR_STATE (VStr (sensor_value SS_ON))]"

fun handle_connection_state :: "ConnectionStatus \<Rightarrow> device \<Rightarrow> device \<times> effect list" where
  "handle_connection_state Status_DISCONNECTED s =
     (s\<lparr>connected_flag := False, attr_state := MS_OFF\<rparr>,
      [Emit ''DISCONNECTED'' (device_id s)] @ disconnected_updates s @
      (if was_intentional_disconnect s then [] else [Sleep 20, Create_task_connect]))"
| "handle_connection_state Status_CONNECTED s =
     (s\<lparr>connected_flag := True, attr_state := MS_ON, was_intentional_disconnect := False\<rparr>,
      [Emit ''CONNECTED'' (device_id s)] @ connected_updates s)"
| "handle_connection_state Status_other s = (s, [])"

subsection \<open>Telemetry handlers\<close>

text \<open>
  A handler returns the device, the effects it got to and the exception that ended it, if
  any. \<open>_handle_srate\<close> formats \<open>float(value) / 1000\<close>; the conversion and the
  formatting are Python's, so the function from the delivered value to that string (or to
  the exception \<open>float\<close> raises) is a parameter, \<open>khz\<close>.
\<close>

type_synonym outcome = "device \<times> effect list \<times> py_error option"

definition handle_audio_sync :: "pyval \<Rightarrow> device \<Rightarrow> outcome" where
  "handle_audio_sync audio_sync s =
     (if py_ne audio_sync (attr_audio_sync s)
      then (s\<lparr>attr_audio_sync := audio_sync\<rparr>,
            [emit_update s EP_AUDIO_SYNC ATTR_VALUE audio_sync], None)
      else (s, [], None))"

text \<open>\<open>labels.values()\<close> needs a dictionary; nothing is stored when it fails.\<close>

fun handle_input_labels :: "pyval \<Rightarrow> device \<Rightarrow> outcome" where
  "handle_input_labels (VDict labels) s =
     (s\<lparr>attr_input_labels := labels\<rparr>,
      [emit_update s EP_MEDIA_PLAYER ATTR_SOURCE_LIST (VList (map snd labels))], None)"
| "handle_input_labels v s = (s, [], Some AttributeError)"

definition handle_sound_mode_list :: "pyval \<Rightarrow> device \<Rightarrow> outcome" where
  "handle_sound_mode_list sound_modes s =
     (s, [emit_update s EP_MEDIA_PLAYER ATTR_SOUND_MODE_LIST sound_modes], None)"

definition handle_source :: "pyval \<Rightarrow> device \<Rightarrow> outcome" where
  "handle_source source s = (s, [emit_update s EP_MEDIA_PLAYER ATTR_SOURCE source], None)"

definition handle_srate :: "(pyval \<Rightarrow> py_error + string) \<Rightarrow> pyval \<Rightarrow> device \<Rightarrow> outcome" where
  "handle_srate khz v s =
     (case khz v of
        Inl e \<Rightarrow> (s, [], Some e)
      | Inr srate \<Rightarrow>
          if srate \<noteq> attr_srate s
          then (s\<lparr>attr_srate := srate\<rparr>,
                [emit_update s EP_SAMPLE_RATE ATTR_VALUE (VStr srate)], None)
          else (s, [], None))"

definition handle_upmixer :: "pyval \<Rightarrow> device \<Rightarrow> outcome" where
  "handle_upmixer upmixer s = (s, [emit_update s EP_MEDIA_PLAYER ATTR_SOUND_MODE upmixer], None)"

text \<open>
  \<open>_handle_volume\<close> stores the value and emits the sensor update before it evaluates
  \<open>self.volume_percent\<close> for the second update.
\<close>

definition volume_updates :: "pyval \<Rightarrow> device \<Rightarrow> outcome" where
  "volume_updates volume s =
     (case volume_percent s of
        Inl e \<Rightarrow> (s, [emit_update s EP_VOLUME ATTR_VALUE volume], Some e)
      | Inr percent \<Rightarrow>
          (s, [emit_update s EP_VOLUME ATTR_VALUE volume,
               emit_update s EP_MEDIA_PLAYER ATTR_VOLUME (VInt percent)], None))"

definition handle_volume :: "pyval \<Rightarrow> device \<Rightarrow> outcome" where
  "handle_volume volume s =
     (if py_ne volume (attr_volume s)
      then volume_updates volume (s\<lparr>attr_volume := volume\<rparr>)
      else (s, [], None))"

definition handle_mute :: "pyval \<Rightarrow> device \<Rightarrow> outcome" where
  "handle_mute muted s =
     (if py_ne muted (attr_muted s)
      then (s\<lparr>attr_muted := muted\<rparr>,
            [emit_update s EP_MUTED ATTR_VALUE muted,
             emit_update s EP_MEDIA_PLAYER ATTR_MUTED muted], None)
      else (s, [], None))"

text \<open>
  \<open>_handle_state_change\<close> with the table \<open>attr_handlers\<close> of
  \<open>_subscribe_device_state_events\<close>: the handler of the signal's name gets
  \<open>event_data.get("value")\<close>; a name without a handler does nothing.
\<close>

definition handle_state_change ::
    "(pyval \<Rightarrow> py_error + string) \<Rightarrow> string \<Rightarrow> pyval \<Rightarrow> device \<Rightarrow> outcome" where
  "handle_state_change khz attr_name v s =
     (if attr_name = ''audiosync_status'' then handle_audio_sync v s
      else if attr_name = ''input_connector'' then handle_source v s
      else if attr_name = ''input_labels'' then handle_input_labels v s
      else if attr_name = ''sound_mode_list'' then handle_sound_mode_list v s
      else if attr_name = ''srate'' then handle_srate khz v s
      else if attr_name = ''upmixer'' then handle_upmixer v s
      else if attr_name = ''volume'' then handle_volume v s
      else if attr_name = ''mute'' then handle_mute v s
      else (s, [], None))"

subsection \<open>Command execution\<close>

text \<open>
  The executor belongs to the session library. It is modelled as a table from attribute
  names to callables (a name that is missing or not callable gives \<open>None\<close>); a callable
  has its signature (required and optional positional-or-keyword parameters, whether it
  takes \<open>*args\<close> and \<open>**kwargs\<close>) and a body, which is run on the bound arguments and
  returns the exception it raises, if any (also one raised when its coroutine is
  awaited). A call whose arguments do not fit the signature raises \<open>TypeError\<close> and the
  body does not run.
\<close>

record capability =
  required :: "string list"
  optional :: "string list"
  var_positional :: bool
  var_keyword :: bool
  body :: "pyval list \<Rightarrow> (string \<times> pyval) list \<Rightarrow> py_error option"

type_synonym executor = "string \<Rightarrow> capability option"

definition n_parameters :: "capability \<Rightarrow> nat" where
  "n_parameters m = length (required m) + length (optional m)
     + (if var_positional m then 1 else 0) + (if var_keyword m then 1 else 0)"

definition binds_positional :: "capability \<Rightarrow> nat \<Rightarrow> bool" where
  "binds_positional m n =
     (length (required m) \<le> n \<and> (var_positional m \<or> n \<le> length (required m) + length (optional m)))"

definition binds_keywords :: "capability \<Rightarrow> string list \<Rightarrow> bool" where
  "binds_keywords m ks =
     (list_all (\<lambda>r. r \<in> set ks) (required m) \<and>
      (var_keyword m \<or> list_all (\<lambda>k. k \<in> set (required m) \<or> k \<in> set (optional m)) ks))"

definition call_positional :: "capability \<Rightarrow> pyval list \<Rightarrow> py_error option" where
  "call_positional m args =
     (if binds_positional m (length args) then body m args [] else Some TypeError)"

text \<open>\<open>method(**parms)\<close>: the keys must be strings.\<close>

fun str_keys :: "(pyval \<times> pyval) list \<Rightarrow> (string \<times> pyval) list option" where
  "str_keys [] = Some []"
| "str_keys ((VStr k, v) # kvs) =
     (case str_keys kvs of None \<Rightarrow> None | Some r \<Rightarrow> Some ((k, v) # r))"
| "str_keys (kv # kvs) = None"

definition call_keywords :: "capability \<Rightarrow> (pyval \<times> pyval) list \<Rightarrow> py_error option" where
  "call_keywords m parms =
     (case str_keys parms of
        None \<Rightarrow> Some TypeError
      | Some kws \<Rightarrow> if binds_keywords m (map fst kws) then body m [] kws else Some TypeError)"

text \<open>
  The \<open>try\<close> block of \<open>_execute_command\<close>. A list or a tuple of parameters is a
  \<open>VList\<close>.
\<close>

fun invoke :: "capability \<Rightarrow> pyval \<Rightarrow> py_error option" where
  "invoke m parms =
     (if n_parameters m = 0 then call_positional m []
      else case parms of
             VList xs \<Rightarrow> call_positional m xs
           | VDict kvs \<Rightarrow> call_keywords m kvs
           | _ \<Rightarrow> call_positional m [parms])"

text \<open>Only \<open>ValueError\<close> is caught; any other exception leaves the method.\<close>

fun status_of :: "py_error option \<Rightarrow> py_error + StatusCodes" where
  "status_of None = Inr OK"
| "status_of (Some ValueError) = Inr BAD_REQUEST"
| "status_of (Some e) = Inl e"

definition execute_command :: "executor \<Rightarrow> string \<Rightarrow> pyval \<Rightarrow> py_error + StatusCodes" where
  "execute_command ex command parms =
     (case ex command of
        None \<Rightarrow> Inr NOT_IMPLEMENTED
      | Some m \<Rightarrow> status_of (invoke m parms))"

definition send_command :: "device \<Rightarrow> executor \<Rightarrow> string \<Rightarrow> pyval \<Rightarrow> py_error + StatusCodes" where
  "send_command s ex command parms =
     (if \<not> connected_flag s then Inr SERVICE_UNAVAILABLE else execute_command ex command parms)"

definition power_on :: "device \<Rightarrow> StatusCodes \<times> effect list" where
  "power_on s = (OK, if attr_state s = MS_OFF then [PowerControl_power_on (mac s)] else [])"

definition power_off :: "device \<Rightarrow> StatusCodes \<times> effect list" where
  "power_off s = (OK, if attr_state s = MS_ON then [Executor_call ''power_off'' []] else [])"

subsection \<open>registry.disconnect_all\<close>

text \<open>Every registered device gets the flag set and is then disconnected.\<close>

definition disconnect_all :: "device registry \<Rightarrow> device registry \<times> effect list" where
  "disconnect_all reg =
     (map (\<lambda>kv. (fst kv, fst (disconnect ((snd kv)\<lparr>was_intentional_disconnect := True\<rparr>)))) reg,
      concat (map (\<lambda>kv. snd (disconnect ((snd kv)\<lparr>was_intentional_disconnect := True\<rparr>))) reg))"

section \<open>media_player.py\<close>

text \<open>
  \<open>command\<close>. The thirteen command ids below are the values of the members of
  \<open>ucapi.media_player.Commands\<close> that the \<open>match\<close> names. Every other id ends in
  \<open>BAD_REQUEST\<close>, whether it is no member (the \<open>ValueError\<close> of \<open>Commands(cmd_id)\<close>)
  or a member without a case (\<open>case _\<close>). \<open>params\<close> is the dictionary or \<open>None\<close>.
  A call of an executor method is recorded as an effect and taken to return. The
  conversion \<open>int(s)\<close> of a string is Python's and a parameter, \<open>str_int\<close>.
\<close>

definition params_get :: "(string \<times> pyval) list option \<Rightarrow> string \<Rightarrow> pyval" where
  "params_get params k =
     (case params of
        None \<Rightarrow> VNone
      | Some kvs \<Rightarrow> (case map_of kvs k of None \<Rightarrow> VNone | Some v \<Rightarrow> v))"

definition params_true :: "(string \<times> pyval) list option \<Rightarrow> bool" where
  "params_true params = (case params of None \<Rightarrow> False | Some kvs \<Rightarrow> kvs \<noteq> [])"

text \<open>\<open>next((k for k, v in table.items() if v == label), None)\<close>\<close>

definition reverse_lookup :: "(pyval \<times> pyval) list \<Rightarrow> pyval \<Rightarrow> pyval" where
  "reverse_lookup table label =
     (case find (\<lambda>kv. py_eq (snd kv) label) table of None \<Rightarrow> VNone | Some kv \<Rightarrow> fst kv)"

fun py_int :: "(string \<Rightarrow> int option) \<Rightarrow> pyval \<Rightarrow> py_error + int" where
  "py_int str_int (VBool b) = Inr (if b then 1 else 0)"
| "py_int str_int (VInt i) = Inr i"
| "py_int str_int (VFloat r) = Inr (int_of_float r)"
| "py_int str_int VNaN = Inl ValueError"
| "py_int str_int (VInf b) = Inl OverflowError"
| "py_int str_int (VStr s) = (case str_int s of None \<Rightarrow> Inl ValueError | Some i \<Rightarrow> Inr i)"
| "py_int str_int v = Inl TypeError"

definition select_sound_mode :: "device \<Rightarrow> (string \<times> pyval) list option \<Rightarrow>
    (py_error + StatusCodes) \<times> effect list" where
  "select_sound_mode s params =
     (if attr_sound_modes s = [] \<or> \<not> truthy (params_get params ''mode'') then (Inr BAD_REQUEST, [])
      else if \<not> truthy (reverse_lookup (attr_sound_modes s) (params_get params ''mode''))
      then (Inr BAD_REQUEST, [])
      else (Inr OK, [Executor_call ''upmixer''
                      [reverse_lookup (attr_sound_modes s) (params_get params ''mode'')]]))"

definition select_source :: "device \<Rightarrow> (string \<times> pyval) list option \<Rightarrow>
    (py_error + StatusCodes) \<times> effect list" where
  "select_source s params =
     (if attr_input_labels s = [] \<or> \<not> truthy (params_get params ''source'') then (Inr BAD_REQUEST, [])
      else if reverse_lookup (attr_input_labels s) (params_get params ''source'') = VNone
      then (Inr BAD_REQUEST, [])
      else (Inr OK, [Executor_call ''select_source''
                      [reverse_lookup (attr_input_labels s) (params_get params ''source'')]]))"

text \<open>
  The \<open>VOLUME\<close> case assigns \<open>res\<close> only when there are parameters: without them
  \<open>return res\<close> reads an unbound local.
\<close>

definition set_volume :: "(string \<Rightarrow> int option) \<Rightarrow> (string \<times> pyval) list option \<Rightarrow>
    (py_error + StatusCodes) \<times> effect list" where
  "set_volume str_int params =
     (if params_true params then
        (case py_int str_int (params_get params ''volume'') of
           Inl e \<Rightarrow> (Inl e, [])
         | Inr volume \<Rightarrow> (Inr OK, [Executor_call ''volume'' [VFloat (percent_to_db volume)]]))
      else (Inl UnboundLocalError, []))"

definition command :: "(string \<Rightarrow> int option) \<Rightarrow> device \<Rightarrow> string \<Rightarrow>
    (string \<times> pyval) list option \<Rightarrow> (py_error + StatusCodes) \<times> effect list" where
  "command str_int s cmd_id params =
     (if cmd_id = ''on'' then (Inr (fst (power_on s)), snd (power_on s))
      else if cmd_id = ''off'' then (Inr (fst (power_off s)), snd (power_off s))
      else if cmd_id = ''play_pause'' then (Inr OK, [])
      else if cmd_id = ''next'' then (Inr OK, [])
      else if cmd_id = ''previous'' then (Inr OK, [])
      else if cmd_id = ''mute_toggle'' then (Inr OK, [Executor_call ''mute'' [VInt 2]])
      else if cmd_id = ''mute'' then (Inr OK, [Executor_call ''mute'' [VInt 1]])
      else if cmd_id = ''unmute'' then (Inr OK, [Executor_call ''mute'' [VInt 0]])
      else if cmd_id = ''select_sound_mode'' then select_sound_mode s params
      else if cmd_id = ''select_source'' then select_source s params
      else if cmd_id = ''volume_down'' then (Inr OK, [Executor_call ''volume_down'' []])
      else if cmd_id = ''volume_up'' then (Inr OK, [Executor_call ''volume_up'' []])
      else if cmd_id = ''volume'' then set_volume str_int params
      else (Inr BAD_REQUEST, []))"

section \<open>Entity adapters: filter_changed_attributes\<close>

text \<open>
  An attribute dictionary is a map from the key to the value. The loops over the keys
  take the entry of the update when both the update and the entity's attributes have the
  key and the two values differ.
\<close>

type_synonym attrs = "string \<rightharpoonup> pyval"

definition changed_step :: "attrs \<Rightarrow> attrs \<Rightarrow> string \<Rightarrow> attrs \<Rightarrow> attrs" where
  "changed_step update current k acc =
     (case update k of
        None \<Rightarrow> acc
      | Some u \<Rightarrow> (case current k of
                     None \<Rightarrow> acc
                   | Some c \<Rightarrow> if py_ne u c then acc(k \<mapsto> u) else acc))"

text \<open>\<open>d.get(k) == x\<close>: a missing key gives \<open>None\<close>, which equals no string.\<close>

definition get_eq :: "attrs \<Rightarrow> string \<Rightarrow> pyval \<Rightarrow> bool" where
  "get_eq d k x = (case d k of None \<Rightarrow> py_eq VNone x | Some v \<Rightarrow> py_eq v x)"

subsection \<open>media_player.py\<close>

text \<open>\<open>MediaPlayerDef.attributes\<close> of const.py, the attributes a media player starts with.\<close>

definition MediaPlayerDef_attributes :: attrs where
  "MediaPlayerDef_attributes =
     [ATTR_MUTED \<mapsto> VBool False,
      ATTR_SOUND_MODE \<mapsto> VStr [],
      ATTR_SOUND_MODE_LIST \<mapsto> VList [],
      ATTR_SOURCE \<mapsto> VStr [],
      ATTR_SOURCE_LIST \<mapsto> VList [],
      ATTR_STATE \<mapsto> VStr (media_value MS_OFF),
      ATTR_VOLUME \<mapsto> VInt (- 20)]"

definition media_player_keys :: "string list" where
  "media_player_keys =
     [ATTR_MUTED, ATTR_SOUND_MODE, ATTR_SOUND_MODE_LIST, ATTR_SOURCE, ATTR_SOURCE_LIST,
      ATTR_STATE, ATTR_VOLUME]"

definition force_source_off :: "attrs \<Rightarrow> attrs" where
  "force_source_off a =
     (if get_eq a ATTR_STATE (VStr (media_value MS_OFF))
      then a(ATTR_SOURCE \<mapsto> VStr [], ATTR_SOURCE_LIST \<mapsto> VList [])
      else a)"

text \<open>
  The first argument is the device the entity holds, the second \<open>self.attributes\<close>.
  The method first overwrites the update's sound mode list with the device's.
\<close>

definition media_player_filter_changed_attributes :: "device \<Rightarrow> attrs \<Rightarrow> attrs \<Rightarrow> attrs" where
  "media_player_filter_changed_attributes dev current update =
     force_source_off
       (fold (changed_step (update(ATTR_SOUND_MODE_LIST \<mapsto> VList (map snd (attr_sound_modes dev))))
                current)
          media_player_keys Map.empty)"

subsection \<open>sensor.py\<close>

definition force_value_unknown :: "attrs \<Rightarrow> attrs" where
  "force_value_unknown a =
     (case a ATTR_STATE of
        None \<Rightarrow> a
      | Some st \<Rightarrow> if py_eq st (VStr (sensor_value SS_UNKNOWN))
                   then a(ATTR_VALUE \<mapsto> VStr ''unknown'') else a)"

definition sensor_filter_changed_attributes :: "attrs \<Rightarrow> attrs \<Rightarrow> attrs" where
  "sensor_filter_changed_attributes current update =
     force_value_unknown (fold (changed_step update current) [ATTR_STATE, ATTR_VALUE] Map.empty)"

subsection \<open>remote.py\<close>

text \<open>
  \<open>MediaStates(x)\<close> looks a member up by value and raises \<open>ValueError\<close> when there is
  none; a value that is no string equals no member.
\<close>

definition media_states :: "MediaStates list" where
  "media_states =
     [MS_UNAVAILABLE, MS_UNKNOWN, MS_ON, MS_OFF, MS_PLAYING, MS_PAUSED, MS_STANDBY, MS_BUFFERING]"

definition MediaStates_call :: "pyval \<Rightarrow> py_error + MediaStates" where
  "MediaStates_call x =
     (case find (\<lambda>m. py_eq (VStr (media_value m)) x) media_states of
        None \<Rightarrow> Inl ValueError
      | Some m \<Rightarrow> Inr m)"

text \<open>\<open>REMOTE_STATE_MAPPING.get(m, States.UNKNOWN)\<close>\<close>

fun REMOTE_STATE_MAPPING_get :: "MediaStates \<Rightarrow> RemoteStates" where
  "REMOTE_STATE_MAPPING_get MS_OFF = RS_OFF"
| "REMOTE_STATE_MAPPING_get MS_ON = RS_ON"
| "REMOTE_STATE_MAPPING_get MS_STANDBY = RS_OFF"
| "REMOTE_STATE_MAPPING_get MS_UNAVAILABLE = RS_UNAVAILABLE"
| "REMOTE_STATE_MAPPING_get MS_UNKNOWN = RS_UNKNOWN"
| "REMOTE_STATE_MAPPING_get m = RS_UNKNOWN"

text \<open>The \<open>try\<close> statement: \<open>except ValueError\<close> gives \<open>UNKNOWN\<close>, another exception leaves.\<close>

fun media_state_enum :: "py_error + MediaStates \<Rightarrow> py_error + MediaStates" where
  "media_state_enum (Inr m) = Inr m"
| "media_state_enum (Inl ValueError) = Inr MS_UNKNOWN"
| "media_state_enum (Inl e) = Inl e"

definition remote_changed :: "attrs \<Rightarrow> RemoteStates \<Rightarrow> attrs" where
  "remote_changed current new_state =
     (if \<not> get_eq current ATTR_STATE (VStr (remote_value new_state))
      then [ATTR_STATE \<mapsto> VStr (remote_value new_state)]
      else Map.empty)"

definition remote_filter_changed_attributes :: "attrs \<Rightarrow> attrs \<Rightarrow> py_error + attrs" where
  "remote_filter_changed_attributes current update =
     (case update ATTR_STATE of
        None \<Rightarrow> Inr Map.empty
      | Some media_state \<Rightarrow>
          (case media_state_enum (MediaStates_call media_state) of
             Inl e \<Rightarrow> Inl e
           | Inr m \<Rightarrow> Inr (remote_changed current (REMOTE_STATE_MAPPING_get m))))"

text \<open>\<open>RemoteDef.attributes\<close> of const.py, the attributes a remote entity starts with.\<close>

definition RemoteDef_attributes :: attrs where
  "RemoteDef_attributes = [ATTR_STATE \<mapsto> VStr (remote_value RS_OFF)]"

section \<open>Example objects\<close>

text \<open>Concrete inputs at which the theorems below are evaluated.\<close>

definition example_device :: device where
  "example_device = TrinnovDevice ''10.0.0.5'' ''AA:BB'' (Some ''X'') [] []"

definition hdmi_device :: device where
  "hdmi_device =
     example_device\<lparr>attr_input_labels := [(VInt 0, VStr ''HDMI1''), (VInt 1, VStr ''HDMI2'')]\<rparr>"

definition khz_48 :: "pyval \<Rightarrow> py_error + string" where
  "khz_48 v = (if v = VInt 48000 then Inr ''48.0'' else Inl ValueError)"

definition no_int :: "string \<Rightarrow> int option" where
  "no_int s = None"

text \<open>An executor whose only method is \<open>mute(mode)\<close>, which never raises.\<close>

definition mute_only :: executor where
  "mute_only name =
     (if name = ''mute''
      then Some \<lparr>required = [''mode''], optional = [], var_positional = False,
                 var_keyword = False, body = (\<lambda>args kws. None)\<rparr>
      else None)"

section \<open>Auxiliary facts\<close>

lemmas attr_defs = ATTR_STATE_def ATTR_VALUE_def ATTR_UNIT_def ATTR_MUTED_def ATTR_VOLUME_def
  ATTR_SOURCE_def ATTR_SOURCE_LIST_def ATTR_SOUND_MODE_def ATTR_SOUND_MODE_LIST_def

text \<open>Python's \<open>==\<close> is reflexive on the values without a NaN.\<close>

lemma py_eq_refl: "nan_free v \<Longrightarrow> py_eq v v"
proof (induction v)
  case (VList xs)
  then show ?case by (simp add: list_all2_same list_all_iff)
next
  case (VDict kvs)
  have "list_all (\<lambda>kv. list_ex (\<lambda>kv'. py_eq (fst kv) (fst kv') \<and> py_eq (snd kv) (snd kv')) kvs) kvs"
    unfolding list_all_iff list_ex_iff
  proof
    fix kv assume m: "kv \<in> set kvs"
    then have "nan_free (fst kv)" "nan_free (snd kv)"
      using VDict.prems by (simp_all add: list_all_iff)
    then have "py_eq (fst kv) (fst kv)" "py_eq (snd kv) (snd kv)"
      using VDict.IH m by (cases kv; fastforce)+
    then show "\<exists>kv'\<in>set kvs. py_eq (fst kv) (fst kv') \<and> py_eq (snd kv) (snd kv')"
      using m by blast
  qed
  then show ?case by simp
qed simp_all

lemma py_eq_VStr: "py_eq (VStr a) x \<longleftrightarrow> x = VStr a"
  by (cases x) auto

section \<open>Properties of the connection handler\<close>

lemma disconnect_keeps_flag:
  "was_intentional_disconnect (fst (disconnect s)) = was_intentional_disconnect s"
  by (simp add: disconnect_def)

lemma reconnect_iff_not_intentional:
  "Create_task_connect \<in> set (snd (handle_connection_state Status_DISCONNECTED s))
   \<longleftrightarrow> \<not> was_intentional_disconnect s"
  by (simp add: disconnected_updates_def emit_update_def)

text \<open>
  The path through \<open>registry.disconnect_all\<close> sets the flag first: a \<open>DISCONNECTED\<close>
  event that reaches any device it has disconnected schedules no reconnect.
\<close>

lemma disconnect_all_suppresses_reconnect:
  assumes "(i, d) \<in> set (fst (disconnect_all reg))"
  shows "Create_task_connect \<notin> set (snd (handle_connection_state Status_DISCONNECTED d))"
proof -
  from assms obtain b where "d = fst (disconnect (b\<lparr>was_intentional_disconnect := True\<rparr>))"
    by (auto simp: disconnect_all_def)
  then have "was_intentional_disconnect d"
    by (simp add: disconnect_keeps_flag)
  then show ?thesis
    using reconnect_iff_not_intentional [of d] by blast
qed

text \<open>
  Claim C1 says that after an explicit \<open>disconnect()\<close> a \<open>DISCONNECTED\<close> event schedules
  no reconnect. The code does otherwise: \<open>disconnect\<close> leaves
  \<open>_was_intentional_disconnect\<close> as it is, and every \<open>CONNECTED\<close> event clears it. So
  for every device, after a \<open>CONNECTED\<close> event and an explicit \<open>disconnect()\<close>, the
  handler of the next \<open>DISCONNECTED\<close> event sleeps and creates the task
  \<open>self.connect()\<close>.
\<close>

theorem explicit_disconnect_still_reconnects:
  "Create_task_connect \<in> set (snd (handle_connection_state Status_DISCONNECTED
       (fst (disconnect (fst (handle_connection_state Status_CONNECTED s))))))"
  by (simp add: reconnect_iff_not_intentional disconnect_keeps_flag)

text \<open>
  Claim C4 says that a \<open>CONNECTED\<close> event emits baseline updates for the media player,
  the remote and all four sensors. The code emits them for the media player, the remote
  and three sensors: for every device and every attribute and value, no update of the
  entity \<open>muted.<id>\<close> is among the effects of the handler (the \<open>DISCONNECTED\<close>
  branch has that entry, see \<open>disconnected_updates\<close>).
\<close>

theorem connected_updates_omit_muted:
  "emit_update s EP_MUTED attr v \<notin> set (snd (handle_connection_state Status_CONNECTED s))"
  by (simp add: connected_updates_def emit_update_def)

text \<open>What the handler does do on \<open>CONNECTED\<close>.\<close>

lemma connected_state_entry:
  "handle_connection_state Status_CONNECTED s =
     (s\<lparr>connected_flag := True, attr_state := MS_ON, was_intentional_disconnect := False\<rparr>,
      [Emit ''CONNECTED'' (device_id s),
       Emit_update (''media_player.'' @ device_id s) ''state'' (VStr ''ON''),
       Emit_update (''remote.'' @ device_id s) ''state'' (VStr ''ON''),
       Emit_update (''sample_rate.'' @ device_id s) ''state'' (VStr ''ON''),
       Emit_update (''audio_sync.'' @ device_id s) ''state'' (VStr ''ON''),
       Emit_update (''volume.'' @ device_id s) ''state'' (VStr ''ON'')])"
  by (simp add: connected_updates_def emit_update_def attr_defs)

section \<open>Properties of the rounding\<close>

text \<open>
  The exponent is the right one, the result of \<open>fl\<close> has a significand of 53 bits and is
  within half a unit in the last place of the exact value, and \<open>fl\<close> never crosses a
  representable number (\<open>fl_ge_representable\<close>) or zero (\<open>fl_nonpos\<close>).
\<close>

lemma pow2_powi: "pow2 e = 2 powi e"
  by (simp add: pow2_def power_int_def power_one_over inverse_eq_divide)

lemma pow2_pos: "0 < pow2 e"
  by (simp add: pow2_powi)

lemma pow2_add: "pow2 (a + b) = pow2 a * pow2 b"
  by (simp add: pow2_powi power_int_add)

lemma pow2_diff: "pow2 (a - b) = pow2 a / pow2 b"
  by (simp add: pow2_powi power_int_diff)

lemma pow2_mono: "a \<le> b \<Longrightarrow> pow2 a \<le> pow2 b"
  by (simp add: pow2_powi power_int_increasing)

lemma pow2_strict_mono: "a < b \<Longrightarrow> pow2 a < pow2 b"
  by (simp add: pow2_powi power_int_strict_increasing)

lemma pow2_nat: "0 \<le> e \<Longrightarrow> pow2 e = of_int (2 ^ nat e)"
  by (simp add: pow2_def)

lemma bitlen_bounds_rat:
  assumes "0 < n"
  shows "pow2 (bitlen n - 1) \<le> of_int n" and "of_int n < pow2 (bitlen n)"
proof -
  have b: "2 ^ nat (bitlen n - 1) \<le> n \<and> n < 2 ^ nat (bitlen n)"
    using assms by (rule bitlen_bounds)
  have ge1: "1 \<le> bitlen n"
    using assms bitlen_eq_zero_iff [of n] bitlen_nonneg [of n] by linarith
  have "pow2 (bitlen n - 1) = of_int (2 ^ nat (bitlen n - 1))"
    using ge1 by (simp add: pow2_nat)
  also have "\<dots> \<le> of_int n"
    using b by (simp only: of_int_le_iff)
  finally show "pow2 (bitlen n - 1) \<le> of_int n" .
  have "(of_int n :: rat) < of_int (2 ^ nat (bitlen n))"
    using b by (simp only: of_int_less_iff)
  also have "\<dots> = pow2 (bitlen n)"
    using ge1 by (simp add: pow2_nat)
  finally show "of_int n < pow2 (bitlen n)" .
qed

lemma bit_gap_bounds:
  assumes "0 < y"
  shows "pow2 (bit_gap y - 1) < y" and "y < pow2 (bit_gap y + 1)"
proof -
  obtain p q where pq: "quotient_of y = (p, q)"
    by (cases "quotient_of y")
  have q: "0 < q"
    using pq by (rule quotient_of_denom_pos)
  have y: "y = of_int p / of_int q"
    using pq by (rule quotient_of_div)
  have p: "0 < p"
    using assms q y by (simp add: zero_less_divide_iff)
  have g: "bit_gap y = bitlen p - bitlen q"
    by (simp add: bit_gap_def pq)
  note bp = bitlen_bounds_rat [OF p] and bq = bitlen_bounds_rat [OF q]
  have qpos: "(0::rat) < of_int q" using q by simp
  have ppos: "(0::rat) < of_int p" using p by simp
  have "pow2 (bit_gap y - 1) = pow2 (bitlen p - 1) / pow2 (bitlen q)"
    by (simp add: g pow2_diff [symmetric] algebra_simps)
  also have "\<dots> \<le> of_int p / pow2 (bitlen q)"
    using bp(1) pow2_pos [of "bitlen q"] by (simp add: divide_right_mono)
  also have "\<dots> < of_int p / of_int q"
    using bq(2) ppos qpos by (simp add: divide_strict_left_mono)
  finally show "pow2 (bit_gap y - 1) < y"
    using y by simp
  have "y = of_int p / of_int q" by (rule y)
  also have "\<dots> < pow2 (bitlen p) / of_int q"
    using bp(2) qpos by (simp add: divide_strict_right_mono)
  also have "\<dots> \<le> pow2 (bitlen p) / pow2 (bitlen q - 1)"
    using bq(1) pow2_pos [of "bitlen p"] pow2_pos [of "bitlen q - 1"]
    by (simp add: divide_left_mono)
  also have "\<dots> = pow2 (bit_gap y + 1)"
    by (simp add: g pow2_diff [symmetric] algebra_simps)
  finally show "y < pow2 (bit_gap y + 1)" .
qed

lemma expo_bounds:
  assumes "0 < y"
  shows "pow2 (expo y) \<le> y" and "y < pow2 (expo y + 1)"
proof -
  note g = bit_gap_bounds [OF assms]
  show "pow2 (expo y) \<le> y"
    using g(1) by (simp add: expo_def less_imp_le)
  show "y < pow2 (expo y + 1)"
    using g(2) by (simp add: expo_def not_le)
qed

lemma expo_mono:
  assumes "0 < c" "c \<le> y"
  shows "expo c \<le> expo y"
proof (rule ccontr)
  assume "\<not> expo c \<le> expo y"
  then have "expo y + 1 \<le> expo c" by simp
  then have "pow2 (expo y + 1) \<le> pow2 (expo c)" by (rule pow2_mono)
  moreover have "y < pow2 (expo y + 1)" using assms by (intro expo_bounds) simp
  moreover have "pow2 (expo c) \<le> c" using assms by (intro expo_bounds)
  ultimately show False using assms by simp
qed

lemma floor_le_round_half_even: "\<lfloor>y\<rfloor> \<le> round_half_even y"
  by (simp add: round_half_even_def)

lemma round_half_even_ge:
  assumes "of_int n \<le> y"
  shows "n \<le> round_half_even y"
proof -
  have "n \<le> \<lfloor>y\<rfloor>"
    using assms by (simp add: le_floor_iff)
  then show ?thesis
    using floor_le_round_half_even [of y] by linarith
qed

lemma ulp_pos: "0 < ulp x"
  by (simp add: ulp_def pow2_pos)

lemma fl_pos: "0 < y \<Longrightarrow> fl y = of_int (round_half_even (y / ulp y)) * ulp y"
  by (simp add: fl_def)

lemma fl_nonpos:
  assumes "x \<le> 0"
  shows "fl x \<le> 0"
proof (cases "x = 0")
  case True
  then show ?thesis by (simp add: fl_def)
next
  case False
  with assms have neg: "x < 0" by simp
  have "of_int 0 \<le> \<bar>x\<bar> / ulp x"
    using ulp_pos [of x] by simp
  then have "0 \<le> round_half_even (\<bar>x\<bar> / ulp x)"
    by (rule round_half_even_ge)
  then have "0 \<le> of_int (round_half_even (\<bar>x\<bar> / ulp x)) * ulp x"
    using ulp_pos [of x] by simp
  then show ?thesis
    using neg False by (simp add: fl_def)
qed

lemma fl_ge_representable:
  assumes c: "0 < c" and le: "c \<le> y" and rep: "c = of_int n * ulp c"
  shows "c \<le> fl y"
proof -
  have y: "0 < y" using c le by simp
  have e: "expo c \<le> expo y" using c le by (rule expo_mono)
  have abs: "\<bar>y\<bar> = y" "\<bar>c\<bar> = c" using y c by simp_all
  show ?thesis
  proof (cases "expo c = expo y")
    case True
    then have u: "ulp y = ulp c" by (simp add: ulp_def abs)
    have "of_int n = c / ulp c"
      using rep ulp_pos [of c] by (simp add: field_simps)
    also have "\<dots> \<le> y / ulp c"
      using le ulp_pos [of c] by (simp add: divide_right_mono)
    finally have "n \<le> round_half_even (y / ulp y)"
      unfolding u by (rule round_half_even_ge)
    then have "of_int n * ulp c \<le> of_int (round_half_even (y / ulp y)) * ulp y"
      unfolding u using ulp_pos [of c] by (simp add: mult_right_mono)
    then show ?thesis
      using rep fl_pos [OF y] by simp
  next
    case False
    with e have lt: "expo c + 1 \<le> expo y" by simp
    have "of_int (2 ^ 52) = pow2 52" by (simp add: pow2_def)
    also have "\<dots> = pow2 (expo y) / ulp y"
      by (simp add: ulp_def abs pow2_diff [symmetric])
    also have "\<dots> \<le> y / ulp y"
      using expo_bounds(1) [OF y] ulp_pos [of y] by (simp add: divide_right_mono)
    finally have "2 ^ 52 \<le> round_half_even (y / ulp y)"
      by (rule round_half_even_ge)
    then have "of_int (2 ^ 52) * ulp y \<le> of_int (round_half_even (y / ulp y)) * ulp y"
      using ulp_pos [of y] by (simp only: mult_le_cancel_right_pos of_int_le_iff)
    moreover have "of_int (2 ^ 52) * ulp y = pow2 (expo y)"
    proof -
      have "of_int (2 ^ 52) * ulp y = pow2 52 * pow2 (expo y - 52)"
        by (simp add: pow2_def ulp_def abs)
      also have "\<dots> = pow2 (expo y)"
        by (simp add: pow2_add [symmetric])
      finally show ?thesis .
    qed
    ultimately have "pow2 (expo y) \<le> fl y"
      using fl_pos [OF y] by simp
    moreover have "c < pow2 (expo c + 1)" using c by (rule expo_bounds)
    moreover have "pow2 (expo c + 1) \<le> pow2 (expo y)" using lt by (rule pow2_mono)
    ultimately show ?thesis by simp
  qed
qed


lemma round_half_even_le_floor_plus_1: "round_half_even y \<le> \<lfloor>y\<rfloor> + 1"
  by (simp add: round_half_even_def)

lemma round_half_even_error: "\<bar>of_int (round_half_even y) - y\<bar> \<le> 1 / 2"
proof -
  have f: "of_int \<lfloor>y\<rfloor> \<le> y" "y < of_int \<lfloor>y\<rfloor> + 1"
    by linarith+
  show ?thesis
  proof (cases "y - of_int \<lfloor>y\<rfloor> < 1 / 2")
    case True
    then show ?thesis using f by (simp add: round_half_even_def)
  next
    case False
    note nlt = this
    show ?thesis
    proof (cases "1 / 2 < y - of_int \<lfloor>y\<rfloor>")
      case True
      then show ?thesis using f nlt by (simp add: round_half_even_def)
    next
      case False
      with nlt have "y - of_int \<lfloor>y\<rfloor> = 1 / 2" by simp
      then show ?thesis by (simp add: round_half_even_def)
    qed
  qed
qed

text \<open>\<open>fl x\<close> is within half a unit in the last place of \<open>x\<close>.\<close>

lemma fl_error: "\<bar>fl x - x\<bar> \<le> ulp x / 2"
proof (cases "x = 0")
  case True
  then show ?thesis using ulp_pos [of x] by (simp add: fl_def)
next
  case False
  define m where "m = round_half_even (\<bar>x\<bar> / ulp x)"
  have u: "0 < ulp x" by (rule ulp_pos)
  have "fl x = sgn x * (of_int m * ulp x)"
    using False by (simp add: fl_def m_def mult.assoc)
  moreover have "sgn x * \<bar>x\<bar> = x"
    by (rule mult_sgn_abs)
  ultimately have "fl x - x = sgn x * (of_int m * ulp x) - sgn x * \<bar>x\<bar>"
    by simp
  then have "fl x - x = sgn x * (of_int m * ulp x - \<bar>x\<bar>)"
    by (simp only: right_diff_distrib)
  then have "\<bar>fl x - x\<bar> = \<bar>of_int m * ulp x - \<bar>x\<bar>\<bar>"
    using False by (simp add: abs_mult abs_sgn_eq)
  also have "of_int m * ulp x - \<bar>x\<bar> = (of_int m - \<bar>x\<bar> / ulp x) * ulp x"
    using u by (simp add: field_simps)
  also have "\<bar>\<dots>\<bar> = \<bar>of_int m - \<bar>x\<bar> / ulp x\<bar> * ulp x"
    using u by (simp add: abs_mult)
  also have "\<dots> \<le> 1 / 2 * ulp x"
    using round_half_even_error [of "\<bar>x\<bar> / ulp x"] u
    unfolding m_def by (intro mult_right_mono) simp_all
  finally show ?thesis by simp
qed

text \<open>Its significand has 53 bits.\<close>

lemma fl_significand:
  assumes "x \<noteq> 0"
  shows "2 ^ 52 \<le> round_half_even (\<bar>x\<bar> / ulp x)" and "round_half_even (\<bar>x\<bar> / ulp x) \<le> 2 ^ 53"
proof -
  have a: "0 < \<bar>x\<bar>" using assms by simp
  have u: "0 < ulp x" by (rule ulp_pos)
  have "of_int (2 ^ 52) = pow2 52"
    by (simp add: pow2_def)
  also have "\<dots> = pow2 (expo \<bar>x\<bar>) / ulp x"
    by (simp add: ulp_def pow2_diff [symmetric])
  also have "\<dots> \<le> \<bar>x\<bar> / ulp x"
    using expo_bounds(1) [OF a] u by (simp add: divide_right_mono)
  finally show "2 ^ 52 \<le> round_half_even (\<bar>x\<bar> / ulp x)"
    by (rule round_half_even_ge)
  have "\<bar>x\<bar> / ulp x < pow2 (expo \<bar>x\<bar> + 1) / ulp x"
    using expo_bounds(2) [OF a] u by (simp add: divide_strict_right_mono)
  also have "\<dots> = pow2 53"
    by (simp add: ulp_def pow2_diff [symmetric])
  also have "\<dots> = of_int (2 ^ 53)"
    by (simp add: pow2_def)
  finally have "\<lfloor>\<bar>x\<bar> / ulp x\<rfloor> < 2 ^ 53"
    by (simp only: floor_less_iff)
  then show "round_half_even (\<bar>x\<bar> / ulp x) \<le> 2 ^ 53"
    using round_half_even_le_floor_plus_1 [of "\<bar>x\<bar> / ulp x"] by linarith
qed

lemma pow2_le_imp_le:
  assumes "pow2 a \<le> pow2 b"
  shows "a \<le> b"
proof (rule ccontr)
  assume "\<not> a \<le> b"
  then have "pow2 b < pow2 a" by (simp add: pow2_strict_mono)
  with assms show False by simp
qed

lemma expo_pow2: "expo (pow2 k) = k"
proof -
  have "pow2 (expo (pow2 k)) \<le> pow2 k" and "pow2 k < pow2 (expo (pow2 k) + 1)"
    using expo_bounds [OF pow2_pos [of k]] by simp_all
  then have "expo (pow2 k) \<le> k" and "\<not> expo (pow2 k) + 1 \<le> k"
    using pow2_le_imp_le [of "expo (pow2 k)" k] pow2_mono [of "expo (pow2 k) + 1" k]
    by auto
  then show ?thesis by simp
qed

section \<open>Properties of the volume mapping\<close>

lemma db_of_29: "percent_to_db 29 = - 71"
  by code_simp

lemma percent_of_minus_71: "percent_of_db (Finite64 (- 71)) = Inr 28"
  by code_simp

text \<open>
  Claim C2 says that \<open>percent_to_db\<close> followed by \<open>volume_percent\<close> gives every integer
  percentage of 0..100 back. In binary64 arithmetic it does not: \<open>percent_to_db 29\<close> is
  \<open>-71.0\<close>, the percentage computed from it is \<open>((-71.0 + 100.0) / 100.0) * 100 =
  28.999999999999996\<close>, and \<open>int\<close> truncates that to 28.
\<close>

theorem percent_29_round_trip_gives_28:
  "volume_percent (s\<lparr>attr_volume := VFloat (percent_to_db 29)\<rparr>) = Inr 28"
  by (simp add: volume_percent_def db_of_29 percent_of_minus_71)

text \<open>
  The same happens at 57 and 58; their neighbours 28, 30, 56 and 59 come back unchanged.
\<close>

lemma round_trip_57_58:
  "volume_percent (example_device\<lparr>attr_volume := VFloat (percent_to_db 57)\<rparr>) = Inr 56"
  "volume_percent (example_device\<lparr>attr_volume := VFloat (percent_to_db 58)\<rparr>) = Inr 57"
  by code_simp+

lemma round_trip_neighbours:
  "volume_percent (example_device\<lparr>attr_volume := VFloat (percent_to_db 28)\<rparr>) = Inr 28"
  "volume_percent (example_device\<lparr>attr_volume := VFloat (percent_to_db 30)\<rparr>) = Inr 30"
  "volume_percent (example_device\<lparr>attr_volume := VFloat (percent_to_db 0)\<rparr>) = Inr 0"
  "volume_percent (example_device\<lparr>attr_volume := VFloat (percent_to_db 100)\<rparr>) = Inr 100"
  by code_simp+

text \<open>
  The other half of claim C2 holds in the same arithmetic: every finite volume below
  \<open>-100\<close> dB is shown as 0 and every finite volume above \<open>0\<close> dB as 100.
\<close>

lemma db_range: "overflow (fl (max_db - min_db)) = Finite64 100"
  by code_simp

lemma ulp_100: "ulp 100 = 1 / 2 ^ 46"
  by code_simp

lemma ulp_1: "ulp 1 = 1 / 2 ^ 52"
  by code_simp

lemma overflow_nonpos: "r \<le> 0 \<Longrightarrow> nonpos64 (overflow r)"
  by (simp add: overflow_def)

lemma overflow_at_least: "0 \<le> k \<Longrightarrow> k \<le> r \<Longrightarrow> at_least64 k (overflow r)"
  by (simp add: overflow_def)

lemma scaled_nonpos:
  assumes "x < - 100"
  shows "\<exists>p. scaled (Finite64 x) = Inr p \<and> nonpos64 p"
proof -
  have "fl (x - min_db) \<le> 0"
    using assms by (simp add: min_db_def fl_nonpos)
  then have a: "nonpos64 (f64_sub (Finite64 x) (Finite64 min_db))"
    by (simp add: overflow_nonpos)
  show ?thesis
  proof (cases "f64_sub (Finite64 x) (Finite64 min_db)")
    case (Finite64 r)
    with a have "r \<le> 0" by simp
    then have "fl (r / 100) \<le> 0"
      by (simp add: fl_nonpos divide_le_0_iff)
    then have q: "nonpos64 (overflow (fl (r / 100)))"
      by (rule overflow_nonpos)
    show ?thesis
    proof (cases "overflow (fl (r / 100))")
      case (Finite64 q')
      with q have "q' \<le> 0" by simp
      then have "fl (q' * 100) \<le> 0"
        by (simp add: fl_nonpos mult_le_0_iff)
      then have "nonpos64 (overflow (fl (q' * 100)))"
        by (rule overflow_nonpos)
      then show ?thesis
        using \<open>f64_sub (Finite64 x) (Finite64 min_db) = Finite64 r\<close> Finite64
        by (simp add: scaled_def db_range)
    next
      case (Inf64 t)
      with q show ?thesis
        using \<open>f64_sub (Finite64 x) (Finite64 min_db) = Finite64 r\<close>
        by (simp add: scaled_def db_range)
    next
      case NaN64
      with q show ?thesis by simp
    qed
  next
    case (Inf64 t)
    with a show ?thesis by (simp add: scaled_def db_range)
  next
    case NaN64
    with a show ?thesis by simp
  qed
qed

lemma scaled_at_least:
  assumes "0 < x"
  shows "\<exists>p. scaled (Finite64 x) = Inr p \<and> at_least64 100 p"
proof -
  have "100 \<le> fl (x - min_db)"
    using assms by (simp add: min_db_def fl_ge_representable [where n = "100 * 2 ^ 46"] ulp_100)
  then have a: "at_least64 100 (f64_sub (Finite64 x) (Finite64 min_db))"
    by (simp add: overflow_at_least)
  show ?thesis
  proof (cases "f64_sub (Finite64 x) (Finite64 min_db)")
    case (Finite64 r)
    with a have "100 \<le> r" by simp
    then have "1 \<le> fl (r / 100)"
      by (simp add: fl_ge_representable [where n = "2 ^ 52"] ulp_1)
    then have q: "at_least64 1 (overflow (fl (r / 100)))"
      by (simp add: overflow_at_least)
    show ?thesis
    proof (cases "overflow (fl (r / 100))")
      case (Finite64 q')
      with q have "1 \<le> q'" by simp
      then have "100 \<le> fl (q' * 100)"
        by (simp add: fl_ge_representable [where n = "100 * 2 ^ 46"] ulp_100)
      then have "at_least64 100 (overflow (fl (q' * 100)))"
        by (simp add: overflow_at_least)
      then show ?thesis
        using \<open>f64_sub (Finite64 x) (Finite64 min_db) = Finite64 r\<close> Finite64
        by (simp add: scaled_def db_range)
    next
      case (Inf64 t)
      with q show ?thesis
        using \<open>f64_sub (Finite64 x) (Finite64 min_db) = Finite64 r\<close>
        by (simp add: scaled_def db_range)
    next
      case NaN64
      with q show ?thesis by simp
    qed
  next
    case (Inf64 t)
    with a show ?thesis by (simp add: scaled_def db_range)
  next
    case NaN64
    with a show ?thesis by simp
  qed
qed

lemma clamp_nonpos:
  "nonpos64 p \<Longrightarrow> int_of_float64 (py_max (Finite64 0) (py_min (Finite64 100) p)) = Inr 0"
  by (cases p) (auto simp: py_min_def py_max_def int_of_float_def)

lemma clamp_at_least:
  "at_least64 100 p \<Longrightarrow> int_of_float64 (py_max (Finite64 0) (py_min (Finite64 100) p)) = Inr 100"
  by (cases p) (auto simp: py_min_def py_max_def int_of_float_def)

lemma volume_percent_clamps_low:
  assumes "to_float (attr_volume s) = Inr (Finite64 x)" "x < - 100"
  shows "volume_percent s = Inr 0"
proof -
  obtain p where "scaled (Finite64 x) = Inr p" "nonpos64 p"
    using scaled_nonpos [OF assms(2)] by blast
  then show ?thesis
    using assms(1) by (simp add: volume_percent_def percent_of_db_def clamp_nonpos)
qed

lemma volume_percent_clamps_high:
  assumes "to_float (attr_volume s) = Inr (Finite64 x)" "0 < x"
  shows "volume_percent s = Inr 100"
proof -
  obtain p where "scaled (Finite64 x) = Inr p" "at_least64 100 p"
    using scaled_at_least [OF assms(2)] by blast
  then show ?thesis
    using assms(1) by (simp add: volume_percent_def percent_of_db_def clamp_at_least)
qed

lemma volume_percent_examples:
  "volume_percent (s\<lparr>attr_volume := VFloat (- 150)\<rparr>) = Inr 0"
  "volume_percent (s\<lparr>attr_volume := VFloat 50\<rparr>) = Inr 100"
  by (simp_all add: volume_percent_clamps_low [where x = "- 150"]
      volume_percent_clamps_high [where x = 50])

text \<open>
  The values that are not finite are clamped too: \<open>-inf\<close> is shown as 0, \<open>inf\<close> as 100, and
  a NaN, which is smaller than nothing, as 100.
\<close>

lemma percent_of_nan: "percent_of_db NaN64 = Inr 100"
  by (simp add: percent_of_db_def scaled_def db_range py_min_def py_max_def int_of_float_def)

lemma percent_of_inf:
  "percent_of_db (Inf64 True) = Inr 100" "percent_of_db (Inf64 False) = Inr 0"
  by (simp_all add: percent_of_db_def scaled_def db_range py_min_def py_max_def int_of_float_def)

lemma volume_percent_not_finite:
  "volume_percent (s\<lparr>attr_volume := VInf False\<rparr>) = Inr 0"
  "volume_percent (s\<lparr>attr_volume := VInf True\<rparr>) = Inr 100"
  "volume_percent (s\<lparr>attr_volume := VNaN\<rparr>) = Inr 100"
  by (simp_all add: volume_percent_def percent_of_inf percent_of_nan)

text \<open>An \<open>int\<close> of \<open>2\<^sup>1\<^sup>0\<^sup>2\<^sup>4\<close> or more is no operand of \<open>float\<close> arithmetic.\<close>

lemma to_float_overflows:
  assumes "2 ^ 1024 \<le> i"
  shows "to_float (VInt i) = Inl OverflowError"
proof -
  have c: "(2::rat) ^ 1024 = pow2 1024"
    by (simp only: pow2_def) simp
  have "(of_int (2 ^ 1024) :: rat) \<le> of_int i"
    using assms by (simp only: of_int_le_iff)
  then have le: "pow2 1024 \<le> of_int i"
    by (simp only: c [symmetric] of_int_power of_int_numeral)
  have abs: "\<bar>pow2 1024\<bar> = pow2 1024"
    using pow2_pos [of 1024] by simp
  have "of_int (2 ^ 52) * ulp (pow2 1024) = pow2 52 * pow2 (1024 - 52)"
    by (simp only: ulp_def abs expo_pow2) (simp add: pow2_def)
  also have "\<dots> = pow2 1024"
    by (simp only: pow2_add [symmetric]) simp
  finally have rep: "pow2 1024 = of_int (2 ^ 52) * ulp (pow2 1024)"
    by simp
  have "pow2 1024 \<le> fl (of_int i)"
    using pow2_pos [of 1024] le rep by (rule fl_ge_representable)
  then have "pow2 1024 \<le> \<bar>fl (of_int i)\<bar>"
    by linarith
  then have "of_int (2 ^ 1024) \<le> \<bar>fl (of_int i)\<bar>"
    by (simp only: c of_int_power of_int_numeral)
  then show ?thesis
    by (simp only: to_float.simps if_True)
qed

lemma volume_percent_huge_int:
  assumes "attr_volume s = VInt i" "2 ^ 1024 \<le> i"
  shows "volume_percent s = Inl OverflowError"
  by (simp only: volume_percent_def assms(1) to_float_overflows [OF assms(2)] sum.case)

section \<open>Properties of the telemetry handlers\<close>

text \<open>
  Claim C3 says that every telemetry handler ignores a value equal to the cached one.
  The handler of the input label table does not compare: delivering the table that is
  already cached emits the source list again.
\<close>

theorem input_labels_not_deduplicated:
  "attr_input_labels (example_device\<lparr>attr_input_labels := [(VInt 0, VStr ''HDMI1'')]\<rparr>)
     = [(VInt 0, VStr ''HDMI1'')]
   \<and> handle_state_change khz_48 ''input_labels'' (VDict [(VInt 0, VStr ''HDMI1'')])
       (example_device\<lparr>attr_input_labels := [(VInt 0, VStr ''HDMI1'')]\<rparr>)
     = (example_device\<lparr>attr_input_labels := [(VInt 0, VStr ''HDMI1'')]\<rparr>,
        [Emit_update ''media_player.X'' ''source_list'' (VList [VStr ''HDMI1''])], None)"
  by (simp add: handle_state_change_def example_device_def TrinnovDevice_def emit_update_def
      attr_defs)

text \<open>A new volume of \<open>-40.0\<close> dB emits the sensor value and the percentage 60.\<close>

lemma percent_of_minus_40: "percent_of_db (Finite64 (- 40)) = Inr 60"
  by code_simp

lemma volume_signal_fans_out:
  "handle_state_change khz ''volume'' (VFloat (- 40)) example_device =
     (example_device\<lparr>attr_volume := VFloat (- 40)\<rparr>,
      [Emit_update ''volume.X'' ''value'' (VFloat (- 40)),
       Emit_update ''media_player.X'' ''volume'' (VInt 60)], None)"
  by (simp add: handle_state_change_def handle_volume_def volume_updates_def volume_percent_def
      percent_of_minus_40 py_ne_def emit_update_def attr_defs example_device_def TrinnovDevice_def)

lemma handle_volume_stores: "py_ne v (attr_volume s) \<Longrightarrow> fst (handle_volume v s) = s\<lparr>attr_volume := v\<rparr>"
  by (simp add: handle_volume_def volume_updates_def split: sum.splits)

lemma handle_volume_again:
  assumes "py_eq v v"
  shows "handle_volume v (fst (handle_volume v s)) = (fst (handle_volume v s), [], None)"
proof (cases "py_ne v (attr_volume s)")
  case True
  then have "attr_volume (fst (handle_volume v s)) = v"
    by (simp add: handle_volume_stores)
  then show ?thesis
    using assms by (simp add: handle_volume_def [of v "fst (handle_volume v s)"] py_ne_def)
next
  case False
  then show ?thesis by (simp add: handle_volume_def)
qed

text \<open>
  A NaN differs from the NaN that is cached, so it is stored and emitted on every
  delivery, with the percentage 100.
\<close>

lemma nan_volume_emitted_again:
  "handle_state_change khz ''volume'' VNaN (s\<lparr>attr_volume := VNaN\<rparr>) =
     (s\<lparr>attr_volume := VNaN\<rparr>,
      [emit_update s EP_VOLUME ATTR_VALUE VNaN,
       emit_update s EP_MEDIA_PLAYER ATTR_VOLUME (VInt 100)], None)"
  by (simp add: handle_state_change_def handle_volume_def volume_updates_def volume_percent_def
      percent_of_nan py_ne_def emit_update_def)

text \<open>
  Claim C3 as amended. The handlers of sync status, sample rate, volume and mute compare
  with the cache: a value equal to the cached one (for the sample rate, one whose kHz
  string is the cached string) emits nothing and leaves the device as it is; and a
  volume value that equals itself emits nothing when it is delivered a second time (a
  NaN equals nothing, itself included, and is emitted on every delivery: lemma
  \<open>nan_volume_emitted_again\<close>). The handlers of input selection, input label table,
  sound-mode table and upmix selection do not compare: each delivery emits one update
  (and the label table is stored).
\<close>

theorem telemetry_deduplication:
  "(py_eq v (attr_audio_sync s) \<longrightarrow> handle_state_change khz ''audiosync_status'' v s = (s, [], None))
   \<and> (khz v = Inr (attr_srate s) \<longrightarrow> handle_state_change khz ''srate'' v s = (s, [], None))
   \<and> (py_eq v (attr_volume s) \<longrightarrow> handle_state_change khz ''volume'' v s = (s, [], None))
   \<and> (py_eq v (attr_muted s) \<longrightarrow> handle_state_change khz ''mute'' v s = (s, [], None))
   \<and> (py_eq v v \<longrightarrow>
        handle_state_change khz ''volume'' v (fst (handle_state_change khz ''volume'' v s))
          = (fst (handle_state_change khz ''volume'' v s), [], None))
   \<and> handle_state_change khz ''input_connector'' v s
       = (s, [emit_update s EP_MEDIA_PLAYER ATTR_SOURCE v], None)
   \<and> handle_state_change khz ''input_labels'' (VDict t) s
       = (s\<lparr>attr_input_labels := t\<rparr>,
          [emit_update s EP_MEDIA_PLAYER ATTR_SOURCE_LIST (VList (map snd t))], None)
   \<and> handle_state_change khz ''sound_mode_list'' v s
       = (s, [emit_update s EP_MEDIA_PLAYER ATTR_SOUND_MODE_LIST v], None)
   \<and> handle_state_change khz ''upmixer'' v s
       = (s, [emit_update s EP_MEDIA_PLAYER ATTR_SOUND_MODE v], None)"
proof (intro conjI impI)
  assume "py_eq v v"
  then show "handle_state_change khz ''volume'' v (fst (handle_state_change khz ''volume'' v s))
       = (fst (handle_state_change khz ''volume'' v s), [], None)"
    using handle_volume_again [of v s] by (simp add: handle_state_change_def)
qed (simp_all add: handle_state_change_def handle_audio_sync_def handle_srate_def
      handle_volume_def handle_mute_def handle_source_def handle_sound_mode_list_def
      handle_upmixer_def py_ne_def)

theorem telemetry_deduplication_witness:
  "py_eq (VFloat (- 40)) (attr_volume (example_device\<lparr>attr_volume := VInt (- 40)\<rparr>))
   \<and> handle_state_change khz_48 ''volume'' (VFloat (- 40)) (example_device\<lparr>attr_volume := VInt (- 40)\<rparr>)
       = (example_device\<lparr>attr_volume := VInt (- 40)\<rparr>, [], None)
   \<and> py_eq (VBool False) (attr_audio_sync example_device)
   \<and> handle_state_change khz_48 ''audiosync_status'' (VBool False) example_device
       = (example_device, [], None)
   \<and> khz_48 (VInt 48000) = Inr (attr_srate (example_device\<lparr>attr_srate := ''48.0''\<rparr>))
   \<and> handle_state_change khz_48 ''srate'' (VInt 48000) (example_device\<lparr>attr_srate := ''48.0''\<rparr>)
       = (example_device\<lparr>attr_srate := ''48.0''\<rparr>, [], None)
   \<and> py_eq (VInt 0) (attr_muted example_device)
   \<and> handle_state_change khz_48 ''mute'' (VInt 0) example_device = (example_device, [], None)
   \<and> py_eq (VFloat (- 40)) (VFloat (- 40))
   \<and> fst (handle_state_change khz_48 ''volume'' (VFloat (- 40)) example_device)
       = example_device\<lparr>attr_volume := VFloat (- 40)\<rparr>
   \<and> handle_state_change khz_48 ''volume'' (VFloat (- 40))
         (fst (handle_state_change khz_48 ''volume'' (VFloat (- 40)) example_device))
       = (example_device\<lparr>attr_volume := VFloat (- 40)\<rparr>, [], None)"
proof -
  have a: "py_eq (VFloat (- 40)) (attr_volume (example_device\<lparr>attr_volume := VInt (- 40)\<rparr>))"
    by simp
  have b: "py_eq (VBool False) (attr_audio_sync example_device)"
    by (simp add: example_device_def TrinnovDevice_def)
  have c: "khz_48 (VInt 48000) = Inr (attr_srate (example_device\<lparr>attr_srate := ''48.0''\<rparr>))"
    by (simp add: khz_48_def)
  have d: "py_eq (VInt 0) (attr_muted example_device)"
    by (simp add: example_device_def TrinnovDevice_def)
  have e: "py_eq (VFloat (- 40)) (VFloat (- 40))"
    by simp
  have f: "fst (handle_state_change khz_48 ''volume'' (VFloat (- 40)) example_device)
       = example_device\<lparr>attr_volume := VFloat (- 40)\<rparr>"
    by (simp add: handle_state_change_def handle_volume_stores py_ne_def example_device_def
        TrinnovDevice_def)
  show ?thesis
    using a b c d e f
      telemetry_deduplication [of "VFloat (- 40)" "example_device\<lparr>attr_volume := VInt (- 40)\<rparr>" khz_48]
      telemetry_deduplication [of "VBool False" example_device khz_48]
      telemetry_deduplication [of "VInt 48000" "example_device\<lparr>attr_srate := ''48.0''\<rparr>" khz_48]
      telemetry_deduplication [of "VInt 0" example_device khz_48]
      telemetry_deduplication [of "VFloat (- 40)" example_device khz_48]
    by simp
qed

section \<open>Properties of command execution\<close>

lemma shape_mismatch_raises:
  "ex c = Some m \<Longrightarrow> 0 < n_parameters m \<Longrightarrow> \<not> binds_positional m (length xs) \<Longrightarrow>
   execute_command ex c (VList xs) = Inl TypeError"
  by (simp add: execute_command_def call_positional_def)

text \<open>\<open>BAD_REQUEST\<close> is the answer exactly when the call itself raised \<open>ValueError\<close>.\<close>

lemma bad_request_iff:
  "execute_command ex c parms = Inr BAD_REQUEST \<longleftrightarrow>
   (\<exists>m. ex c = Some m \<and> invoke m parms = Some ValueError)"
proof (cases "ex c")
  case None
  then show ?thesis by (simp add: execute_command_def)
next
  case (Some m)
  show ?thesis
  proof (cases "invoke m parms")
    case None
    with Some show ?thesis by (simp add: execute_command_def)
  next
    case (Some e)
    with \<open>ex c = Some m\<close> show ?thesis by (cases e) (simp_all add: execute_command_def)
  qed
qed

text \<open>
  Claim C5 says that parameters whose shape does not fit the target method give
  \<open>BAD_REQUEST\<close>. The code catches \<open>ValueError\<close> only, and a call that does not fit
  the signature raises \<open>TypeError\<close>: with a method \<open>mute(mode)\<close>, two positional
  arguments, or a keyword the method does not have, end in that exception.
\<close>

theorem arity_mismatch_raises_TypeError:
  "execute_command mute_only ''mute'' (VList [VInt 1, VInt 2]) = Inl TypeError
   \<and> execute_command mute_only ''mute'' (VDict [(VStr ''level'', VInt 1)]) = Inl TypeError"
  by (simp add: execute_command_def mute_only_def n_parameters_def call_positional_def
      binds_positional_def call_keywords_def binds_keywords_def)

section \<open>Properties of the media player\<close>

lemma reverse_lookup_found:
  "find (\<lambda>kv. py_eq (snd kv) label) table = Some (k, v) \<Longrightarrow> reverse_lookup table label = k"
  by (simp add: reverse_lookup_def)

lemma reverse_lookup_absent:
  assumes "\<not> list_ex (\<lambda>kv. py_eq (snd kv) label) table"
  shows "reverse_lookup table label = VNone"
proof -
  have "find (\<lambda>kv. py_eq (snd kv) label) table = None"
    using assms by (auto simp: find_None_iff list_ex_iff)
  then show ?thesis
    by (simp add: reverse_lookup_def)
qed

text \<open>
  Claim C6 says that a requested label the table contains is dispatched and answered
  \<open>OK\<close>. The guard \<open>not label_name\<close> comes first: a table that holds the empty label,
  asked for the empty label, answers \<open>BAD_REQUEST\<close> and dispatches nothing.
\<close>

theorem select_source_empty_label_rejected:
  "list_ex (\<lambda>kv. py_eq (snd kv) (VStr [])) [(VInt 0, VStr [])]
   \<and> command no_int (example_device\<lparr>attr_input_labels := [(VInt 0, VStr [])]\<rparr>)
        ''select_source'' (Some [(''source'', VStr [])]) = (Inr BAD_REQUEST, [])"
  by (simp add: command_def select_source_def params_get_def)

text \<open>
  Claim C6 as amended. When the requested label is true (not missing, not empty) and the
  first item of the cached label table whose label equals it has the index \<open>k\<close>, other
  than \<open>None\<close>, the command dispatches \<open>select_source(k)\<close> and nothing else and returns
  \<open>OK\<close>; when no item of the table has the requested label (the table may be empty),
  it returns \<open>BAD_REQUEST\<close> and dispatches nothing.
\<close>

theorem select_source_reverse_lookup:
  "(truthy (params_get params ''source'')
      \<and> find (\<lambda>kv. py_eq (snd kv) (params_get params ''source'')) (attr_input_labels s) = Some (k, v)
      \<and> k \<noteq> VNone
    \<longrightarrow> command str_int s ''select_source'' params
          = (Inr OK, [Executor_call ''select_source'' [k]]))
   \<and> (\<not> list_ex (\<lambda>kv. py_eq (snd kv) (params_get params ''source'')) (attr_input_labels s)
    \<longrightarrow> command str_int s ''select_source'' params = (Inr BAD_REQUEST, []))"
proof (intro conjI impI)
  assume h: "truthy (params_get params ''source'')
      \<and> find (\<lambda>kv. py_eq (snd kv) (params_get params ''source'')) (attr_input_labels s) = Some (k, v)
      \<and> k \<noteq> VNone"
  then have ne: "attr_input_labels s \<noteq> []"
    by auto
  have "reverse_lookup (attr_input_labels s) (params_get params ''source'') = k"
    using h reverse_lookup_found by blast
  then show "command str_int s ''select_source'' params
          = (Inr OK, [Executor_call ''select_source'' [k]])"
    using h ne by (simp add: command_def select_source_def)
next
  assume "\<not> list_ex (\<lambda>kv. py_eq (snd kv) (params_get params ''source'')) (attr_input_labels s)"
  then have "reverse_lookup (attr_input_labels s) (params_get params ''source'') = VNone"
    by (rule reverse_lookup_absent)
  then show "command str_int s ''select_source'' params = (Inr BAD_REQUEST, [])"
    by (simp add: command_def select_source_def)
qed

theorem select_source_reverse_lookup_witness:
  "command no_int hdmi_device ''select_source'' (Some [(''source'', VStr ''HDMI2'')])
      = (Inr OK, [Executor_call ''select_source'' [VInt 1]])
   \<and> command no_int hdmi_device ''select_source'' (Some [(''source'', VStr ''HDMI9'')])
      = (Inr BAD_REQUEST, [])
   \<and> command no_int example_device ''select_source'' (Some [(''source'', VStr ''HDMI2'')])
      = (Inr BAD_REQUEST, [])"
proof -
  have a: "truthy (params_get (Some [(''source'', VStr ''HDMI2'')]) ''source'')
      \<and> find (\<lambda>kv. py_eq (snd kv) (params_get (Some [(''source'', VStr ''HDMI2'')]) ''source''))
            (attr_input_labels hdmi_device) = Some (VInt 1, VStr ''HDMI2'')
      \<and> VInt 1 \<noteq> VNone"
    by (simp add: params_get_def hdmi_device_def)
  have b: "\<not> list_ex (\<lambda>kv. py_eq (snd kv) (params_get (Some [(''source'', VStr ''HDMI9'')]) ''source''))
            (attr_input_labels hdmi_device)"
    by (simp add: params_get_def hdmi_device_def)
  have c: "\<not> list_ex (\<lambda>kv. py_eq (snd kv) (params_get (Some [(''source'', VStr ''HDMI2'')]) ''source''))
            (attr_input_labels example_device)"
    by (simp add: example_device_def TrinnovDevice_def)
  show ?thesis
    using a b c
      select_source_reverse_lookup
        [of "Some [(''source'', VStr ''HDMI2'')]" hdmi_device "VInt 1" "VStr ''HDMI2''" no_int]
      select_source_reverse_lookup [of "Some [(''source'', VStr ''HDMI9'')]" hdmi_device _ _ no_int]
      select_source_reverse_lookup [of "Some [(''source'', VStr ''HDMI2'')]" example_device _ _ no_int]
    by blast
qed

section \<open>Properties of the entity adapters\<close>

lemma fold_changed_step:
  "distinct ks \<Longrightarrow>
   fold (changed_step u c) ks acc k =
     (if k \<in> set ks
      then (case u k of None \<Rightarrow> acc k
            | Some x \<Rightarrow> (case c k of None \<Rightarrow> acc k
                          | Some y \<Rightarrow> if py_ne x y then Some x else acc k))
      else acc k)"
proof (induction ks arbitrary: acc)
  case Nil
  then show ?case by simp
next
  case (Cons a ks)
  then show ?case
    by (auto simp: changed_step_def split: option.splits)
qed

lemma media_player_keys_distinct: "distinct media_player_keys"
  by (simp add: media_player_keys_def attr_defs)

text \<open>
  A source equal to the one the entity has is dropped here, which is where the repeated
  updates of the handlers without a cache end.
\<close>

lemma duplicate_source_dropped_by_adapter:
  assumes "current ATTR_SOURCE = Some c" "py_eq v c"
  shows "media_player_filter_changed_attributes dev current [ATTR_SOURCE \<mapsto> v] ATTR_SOURCE = None"
proof -
  let ?u = "[ATTR_SOURCE \<mapsto> v, ATTR_SOUND_MODE_LIST \<mapsto> VList (map snd (attr_sound_modes dev))]"
  let ?a = "fold (changed_step ?u current) media_player_keys Map.empty"
  have st: "?a ATTR_STATE = None"
    by (simp add: fold_changed_step media_player_keys_distinct) (simp add: attr_defs)
  have src: "?a ATTR_SOURCE = None"
    using assms by (simp add: fold_changed_step media_player_keys_distinct py_ne_def)
      (simp add: attr_defs)
  show ?thesis
    using st src
    by (simp add: media_player_filter_changed_attributes_def force_source_off_def get_eq_def)
qed

text \<open>
  Claim C7 says that an update that sets the play state to \<open>OFF\<close> always yields an
  empty source and source list. The rule looks at the filtered changes, not at the
  update: a media player whose state is \<open>OFF\<close> already (as it is created) and that
  receives \<open>{state: OFF}\<close> returns no change at all.
\<close>

theorem state_off_unchanged_no_source:
  "[ATTR_STATE \<mapsto> VStr ''OFF''] ATTR_STATE = Some (VStr ''OFF'')
   \<and> media_player_filter_changed_attributes example_device MediaPlayerDef_attributes
        [ATTR_STATE \<mapsto> VStr ''OFF''] ATTR_SOURCE = None"
  by (simp add: media_player_filter_changed_attributes_def force_source_off_def get_eq_def
      changed_step_def MediaPlayerDef_attributes_def
      media_player_keys_def attr_defs example_device_def TrinnovDevice_def py_ne_def)

text \<open>
  Claim C7 as amended. If the update's state equals \<open>OFF\<close> and differs from the
  state in the entity's attributes, the filtered output has \<open>source = ""\<close> and
  \<open>source_list = []\<close> (and the new state), whatever else the update holds.
\<close>

theorem state_off_forces_source_empty:
  "update ATTR_STATE = Some v \<and> py_eq v (VStr ''OFF'') \<and> current ATTR_STATE = Some c \<and> py_ne v c
   \<longrightarrow> media_player_filter_changed_attributes dev current update ATTR_SOURCE = Some (VStr [])
     \<and> media_player_filter_changed_attributes dev current update ATTR_SOURCE_LIST = Some (VList [])
     \<and> media_player_filter_changed_attributes dev current update ATTR_STATE = Some v"
proof
  assume h: "update ATTR_STATE = Some v \<and> py_eq v (VStr ''OFF'') \<and> current ATTR_STATE = Some c \<and> py_ne v c"
  have st: "fold (changed_step (update(ATTR_SOUND_MODE_LIST \<mapsto> VList (map snd (attr_sound_modes dev))))
                current) media_player_keys Map.empty ATTR_STATE = Some v"
    using h by (simp add: fold_changed_step media_player_keys_distinct)
      (simp add: media_player_keys_def attr_defs)
  show "media_player_filter_changed_attributes dev current update ATTR_SOURCE = Some (VStr [])
     \<and> media_player_filter_changed_attributes dev current update ATTR_SOURCE_LIST = Some (VList [])
     \<and> media_player_filter_changed_attributes dev current update ATTR_STATE = Some v"
    using h st
    by (simp add: media_player_filter_changed_attributes_def force_source_off_def get_eq_def)
      (simp add: attr_defs)
qed

theorem state_off_forces_source_empty_witness:
  "media_player_filter_changed_attributes example_device
      (MediaPlayerDef_attributes(ATTR_STATE \<mapsto> VStr ''ON'', ATTR_SOURCE \<mapsto> VStr ''HDMI1''))
      [ATTR_STATE \<mapsto> VStr ''OFF''] ATTR_SOURCE = Some (VStr [])
   \<and> media_player_filter_changed_attributes example_device
      (MediaPlayerDef_attributes(ATTR_STATE \<mapsto> VStr ''ON'', ATTR_SOURCE \<mapsto> VStr ''HDMI1''))
      [ATTR_STATE \<mapsto> VStr ''OFF''] ATTR_SOURCE_LIST = Some (VList [])"
proof -
  have a: "[ATTR_STATE \<mapsto> VStr ''OFF''] ATTR_STATE = Some (VStr ''OFF'')
      \<and> py_eq (VStr ''OFF'') (VStr ''OFF'')
      \<and> (MediaPlayerDef_attributes(ATTR_STATE \<mapsto> VStr ''ON'', ATTR_SOURCE \<mapsto> VStr ''HDMI1''))
           ATTR_STATE = Some (VStr ''ON'')
      \<and> py_ne (VStr ''OFF'') (VStr ''ON'')"
    by (simp add: attr_defs py_ne_def)
  show ?thesis
    using a state_off_forces_source_empty [of "[ATTR_STATE \<mapsto> VStr ''OFF'']" "VStr ''OFF''"
        "MediaPlayerDef_attributes(ATTR_STATE \<mapsto> VStr ''ON'', ATTR_SOURCE \<mapsto> VStr ''HDMI1'')"
        "VStr ''ON''" example_device]
    by blast
qed

text \<open>
  Claim C9. If the changes the sensor adapter returns contain a state equal to
  \<open>UNKNOWN\<close>, they contain the value \<open>"unknown"\<close>, whatever value the update had.
\<close>

theorem sensor_unknown_forces_value:
  "sensor_filter_changed_attributes current update ATTR_STATE = Some v \<and> py_eq v (VStr ''UNKNOWN'')
   \<longrightarrow> sensor_filter_changed_attributes current update ATTR_VALUE = Some (VStr ''unknown'')"
proof
  let ?a = "fold (changed_step update current) [ATTR_STATE, ATTR_VALUE] Map.empty"
  assume h: "sensor_filter_changed_attributes current update ATTR_STATE = Some v \<and> py_eq v (VStr ''UNKNOWN'')"
  show "sensor_filter_changed_attributes current update ATTR_VALUE = Some (VStr ''unknown'')"
  proof (cases "?a ATTR_STATE")
    case None
    then have "sensor_filter_changed_attributes current update = ?a"
      by (simp add: sensor_filter_changed_attributes_def force_value_unknown_def)
    with None h show ?thesis by simp
  next
    case (Some st)
    show ?thesis
    proof (cases "py_eq st (VStr (sensor_value SS_UNKNOWN))")
      case True
      with Some show ?thesis
        by (simp add: sensor_filter_changed_attributes_def force_value_unknown_def)
    next
      case False
      with Some have "sensor_filter_changed_attributes current update = ?a"
        by (simp add: sensor_filter_changed_attributes_def force_value_unknown_def)
      with Some h have "st = v" by simp
      with False h show ?thesis by simp
    qed
  qed
qed

theorem sensor_unknown_forces_value_witness:
  "sensor_filter_changed_attributes
      [ATTR_STATE \<mapsto> VStr ''ON'', ATTR_VALUE \<mapsto> VStr ''48.0'', ATTR_UNIT \<mapsto> VStr ''kHz'']
      [ATTR_STATE \<mapsto> VStr ''UNKNOWN'', ATTR_VALUE \<mapsto> VStr ''44.1''] ATTR_STATE = Some (VStr ''UNKNOWN'')
   \<and> sensor_filter_changed_attributes
      [ATTR_STATE \<mapsto> VStr ''ON'', ATTR_VALUE \<mapsto> VStr ''48.0'', ATTR_UNIT \<mapsto> VStr ''kHz'']
      [ATTR_STATE \<mapsto> VStr ''UNKNOWN'', ATTR_VALUE \<mapsto> VStr ''44.1''] ATTR_VALUE = Some (VStr ''unknown'')"
proof -
  have a: "sensor_filter_changed_attributes
      [ATTR_STATE \<mapsto> VStr ''ON'', ATTR_VALUE \<mapsto> VStr ''48.0'', ATTR_UNIT \<mapsto> VStr ''kHz'']
      [ATTR_STATE \<mapsto> VStr ''UNKNOWN'', ATTR_VALUE \<mapsto> VStr ''44.1''] ATTR_STATE = Some (VStr ''UNKNOWN'')"
    by (simp add: sensor_filter_changed_attributes_def force_value_unknown_def changed_step_def
        attr_defs py_ne_def)
  have b: "py_eq (VStr ''UNKNOWN'') (VStr ''UNKNOWN'')"
    by simp
  show ?thesis
    using a b sensor_unknown_forces_value
        [of "[ATTR_STATE \<mapsto> VStr ''ON'', ATTR_VALUE \<mapsto> VStr ''48.0'', ATTR_UNIT \<mapsto> VStr ''kHz'']"
          "[ATTR_STATE \<mapsto> VStr ''UNKNOWN'', ATTR_VALUE \<mapsto> VStr ''44.1'']" "VStr ''UNKNOWN''"]
    by blast
qed

lemma MediaStates_call_only_ValueError:
  "MediaStates_call x = Inl e \<Longrightarrow> e = ValueError"
  by (auto simp: MediaStates_call_def split: option.splits)

lemma media_state_enum_total: "\<exists>m. media_state_enum (MediaStates_call x) = Inr m"
proof (cases "MediaStates_call x")
  case (Inl e)
  then show ?thesis using MediaStates_call_only_ValueError [of x e] by auto
next
  case (Inr m)
  then show ?thesis by simp
qed

lemma MediaStates_call_unknown:
  assumes "\<forall>m. x \<noteq> VStr (media_value m)"
  shows "MediaStates_call x = Inl ValueError"
proof -
  have "find (\<lambda>m. py_eq (VStr (media_value m)) x) media_states = None"
    using assms by (auto simp: find_None_iff py_eq_VStr)
  then show ?thesis by (simp add: MediaStates_call_def)
qed

lemma MediaStates_call_known: "MediaStates_call (VStr (media_value m)) = Inr m"
  by (cases m) (simp_all add: MediaStates_call_def media_states_def)

lemma remote_value_cases:
  "VStr (remote_value r) \<in> {VStr ''ON'', VStr ''OFF'', VStr ''UNAVAILABLE'', VStr ''UNKNOWN''}"
  by (cases r) simp_all

lemma remote_changed_bounded:
  "remote_changed current r k = Some v \<Longrightarrow>
   k = ATTR_STATE \<and> v \<in> {VStr ''ON'', VStr ''OFF'', VStr ''UNAVAILABLE'', VStr ''UNKNOWN''}"
  using remote_value_cases [of r]
  by (auto simp: remote_changed_def split: if_splits)

text \<open>
  Claim C10. The remote adapter's \<open>filter_changed_attributes\<close> returns a dictionary
  for every update and never raises; what it returns holds at most the key \<open>state\<close>,
  with one of \<open>ON\<close>, \<open>OFF\<close>, \<open>UNAVAILABLE\<close>, \<open>UNKNOWN\<close>; an update whose state is
  not the value of any member of \<open>MediaStates\<close> is mapped to \<open>UNKNOWN\<close>, and the
  state of a member to its entry of the mapping table (\<open>UNKNOWN\<close> without one); the
  mapped state is returned unless it is the state the entity has already.
\<close>

theorem remote_filter_total_and_bounded:
  "(\<exists>d. remote_filter_changed_attributes current update = Inr d
        \<and> (\<forall>k v. d k = Some v \<longrightarrow>
              k = ATTR_STATE \<and> v \<in> {VStr ''ON'', VStr ''OFF'', VStr ''UNAVAILABLE'', VStr ''UNKNOWN''}))
   \<and> (update ATTR_STATE = Some x \<and> (\<forall>m. x \<noteq> VStr (media_value m))
        \<longrightarrow> remote_filter_changed_attributes current update
            = Inr (if get_eq current ATTR_STATE (VStr ''UNKNOWN'') then Map.empty
                   else [ATTR_STATE \<mapsto> VStr ''UNKNOWN'']))
   \<and> (update ATTR_STATE = Some (VStr (media_value m))
        \<longrightarrow> remote_filter_changed_attributes current update
            = Inr (if get_eq current ATTR_STATE (VStr (remote_value (REMOTE_STATE_MAPPING_get m)))
                   then Map.empty
                   else [ATTR_STATE \<mapsto> VStr (remote_value (REMOTE_STATE_MAPPING_get m))]))"
proof (intro conjI impI)
  show "\<exists>d. remote_filter_changed_attributes current update = Inr d
        \<and> (\<forall>k v. d k = Some v \<longrightarrow>
              k = ATTR_STATE \<and> v \<in> {VStr ''ON'', VStr ''OFF'', VStr ''UNAVAILABLE'', VStr ''UNKNOWN''})"
  proof (cases "update ATTR_STATE")
    case None
    then show ?thesis by (simp add: remote_filter_changed_attributes_def)
  next
    case (Some media_state)
    obtain n where n: "media_state_enum (MediaStates_call media_state) = Inr n"
      using media_state_enum_total by blast
    have "remote_filter_changed_attributes current update
        = Inr (remote_changed current (REMOTE_STATE_MAPPING_get n))"
      using Some n by (simp add: remote_filter_changed_attributes_def)
    then show ?thesis
      using remote_changed_bounded [of current "REMOTE_STATE_MAPPING_get n"] by blast
  qed
next
  assume h: "update ATTR_STATE = Some x \<and> (\<forall>m. x \<noteq> VStr (media_value m))"
  then have "MediaStates_call x = Inl ValueError"
    using MediaStates_call_unknown by blast
  then show "remote_filter_changed_attributes current update
            = Inr (if get_eq current ATTR_STATE (VStr ''UNKNOWN'') then Map.empty
                   else [ATTR_STATE \<mapsto> VStr ''UNKNOWN''])"
    using h by (simp add: remote_filter_changed_attributes_def remote_changed_def)
next
  assume "update ATTR_STATE = Some (VStr (media_value m))"
  then show "remote_filter_changed_attributes current update
            = Inr (if get_eq current ATTR_STATE (VStr (remote_value (REMOTE_STATE_MAPPING_get m)))
                   then Map.empty
                   else [ATTR_STATE \<mapsto> VStr (remote_value (REMOTE_STATE_MAPPING_get m))])"
    by (simp add: remote_filter_changed_attributes_def remote_changed_def MediaStates_call_known)
qed

theorem remote_filter_total_and_bounded_witness:
  "remote_filter_changed_attributes RemoteDef_attributes [ATTR_STATE \<mapsto> VStr ''bogus'']
     = Inr [ATTR_STATE \<mapsto> VStr ''UNKNOWN'']
   \<and> remote_filter_changed_attributes RemoteDef_attributes [ATTR_STATE \<mapsto> VInt 7]
     = Inr [ATTR_STATE \<mapsto> VStr ''UNKNOWN'']
   \<and> remote_filter_changed_attributes RemoteDef_attributes [ATTR_STATE \<mapsto> VStr ''ON'']
     = Inr [ATTR_STATE \<mapsto> VStr ''ON'']
   \<and> remote_filter_changed_attributes RemoteDef_attributes [ATTR_STATE \<mapsto> VStr ''STANDBY'']
     = Inr Map.empty"
proof -
  have a: "[ATTR_STATE \<mapsto> VStr ''bogus''] ATTR_STATE = Some (VStr ''bogus'')
      \<and> (\<forall>m. VStr ''bogus'' \<noteq> VStr (media_value m))"
  proof (intro conjI allI)
    fix m show "VStr ''bogus'' \<noteq> VStr (media_value m)" by (cases m) simp_all
  qed simp
  have b: "[ATTR_STATE \<mapsto> VInt 7] ATTR_STATE = Some (VInt 7)
      \<and> (\<forall>m. VInt 7 \<noteq> VStr (media_value m))"
    by simp
  have c: "\<not> get_eq RemoteDef_attributes ATTR_STATE (VStr ''UNKNOWN'')"
    by (simp add: get_eq_def RemoteDef_attributes_def)
  have d: "[ATTR_STATE \<mapsto> VStr ''ON''] ATTR_STATE = Some (VStr (media_value MS_ON))
      \<and> \<not> get_eq RemoteDef_attributes ATTR_STATE (VStr (remote_value (REMOTE_STATE_MAPPING_get MS_ON)))"
    by (simp add: get_eq_def RemoteDef_attributes_def)
  have e: "[ATTR_STATE \<mapsto> VStr ''STANDBY''] ATTR_STATE = Some (VStr (media_value MS_STANDBY))
      \<and> get_eq RemoteDef_attributes ATTR_STATE (VStr (remote_value (REMOTE_STATE_MAPPING_get MS_STANDBY)))"
    by (simp add: get_eq_def RemoteDef_attributes_def)
  show ?thesis
    using a b c d e
      remote_filter_total_and_bounded
        [of RemoteDef_attributes "[ATTR_STATE \<mapsto> VStr ''bogus'']" "VStr ''bogus''"]
      remote_filter_total_and_bounded
        [of RemoteDef_attributes "[ATTR_STATE \<mapsto> VInt 7]" "VInt 7"]
      remote_filter_total_and_bounded
        [of RemoteDef_attributes "[ATTR_STATE \<mapsto> VStr ''ON'']" _ MS_ON]
      remote_filter_total_and_bounded
        [of RemoteDef_attributes "[ATTR_STATE \<mapsto> VStr ''STANDBY'']" _ MS_STANDBY]
    by simp
qed

section \<open>Properties of the registry\<close>

lemma unregister_absent:
  "i \<notin> set (map fst reg) \<Longrightarrow> unregister_device i reg = reg"
  unfolding unregister_device_def by (induction reg) auto

lemma get_device_None_iff:
  "get_device reg i = None \<longleftrightarrow> i \<notin> set (map fst reg)"
  unfolding get_device_def by (simp add: map_of_eq_None_iff)

text \<open>The keys stay distinct, so the list is a dictionary, and the two updates do their work.\<close>

lemma register_device_distinct:
  "distinct (map fst reg) \<Longrightarrow> distinct (map fst (register_device i d reg))"
  by (simp add: register_device_def)

lemma unregister_device_distinct:
  "distinct (map fst reg) \<Longrightarrow> distinct (map fst (unregister_device i reg))"
  by (simp add: unregister_device_def distinct_map_filter)

lemma unregister_device_removes: "get_device (unregister_device i reg) i = None"
  by (induction reg) (auto simp: unregister_device_def get_device_def)

lemma register_device_adds:
  "get_device reg i = None \<Longrightarrow> get_device (register_device i d reg) i = Some d"
  by (simp add: register_device_def get_device_def map_of_eq_None_iff [symmetric] map_add_def)

text \<open>
  Claim C8. If a device id is registered with session \<open>s1\<close>, then
  \<open>register_device\<close> with the same id and any session \<open>s2\<close> returns the registry
  unchanged (so \<open>get_device\<close> still gives \<open>s1\<close> and no other entry changes); and
  \<open>unregister_device\<close> of an id that is not registered returns the registry unchanged.
\<close>

theorem register_first_wins_unregister_idempotent:
  "(get_device reg i = Some s1 \<longrightarrow>
      register_device i s2 reg = reg \<and> get_device (register_device i s2 reg) i = Some s1)
   \<and> (get_device reg j = None \<longrightarrow> unregister_device j reg = reg)"
proof (intro conjI impI)
  assume present: "get_device reg i = Some s1"
  then have "i \<in> set (map fst reg)"
    using get_device_None_iff [of reg i] by auto
  then show same: "register_device i s2 reg = reg"
    by (simp add: register_device_def)
  show "get_device (register_device i s2 reg) i = Some s1"
    using present same by simp
next
  assume "get_device reg j = None"
  then show "unregister_device j reg = reg"
    using get_device_None_iff [of reg j] unregister_absent [of j reg] by simp
qed

theorem register_first_wins_unregister_idempotent_witness:
  "get_device [(''t1'', 1::nat), (''t2'', 2)] ''t1'' = Some 1
   \<and> register_device ''t1'' 7 [(''t1'', 1::nat), (''t2'', 2)] = [(''t1'', 1), (''t2'', 2)]
   \<and> get_device (register_device ''t1'' 7 [(''t1'', 1::nat), (''t2'', 2)]) ''t1'' = Some 1
   \<and> get_device [(''t1'', 1::nat), (''t2'', 2)] ''t9'' = None
   \<and> unregister_device ''t9'' [(''t1'', 1::nat), (''t2'', 2)] = [(''t1'', 1), (''t2'', 2)]"
proof -
  have a: "get_device [(''t1'', 1::nat), (''t2'', 2)] ''t1'' = Some 1"
    by (simp add: get_device_def)
  have b: "get_device [(''t1'', 1::nat), (''t2'', 2)] ''t9'' = None"
    by (simp add: get_device_def)
  show ?thesis
    using a b
      register_first_wins_unregister_idempotent
        [of "[(''t1'', 1::nat), (''t2'', 2)]" "''t1''" 1 7 "''t9''"]
    by simp
qed

end
